theory Spec2Isabelle
  imports Complex_Main
begin

chapter \<open>ludusavi-runner: the retry HTTP client and the cycle runner\<close>

text \<open>
  A shallow embedding of two parts of the repository: \<^verbatim>\<open>internal/http/client.go\<close>
  (the retrying client: \<^verbatim>\<open>calculateDelay\<close>, \<^verbatim>\<open>shouldRetry\<close>, \<^verbatim>\<open>Do\<close>) and
  \<^verbatim>\<open>internal/app/runner.go\<close> with the result types of package \<^verbatim>\<open>domain\<close>
  (\<^verbatim>\<open>Runner.Run\<close> and what it calls). Go values of type \<^verbatim>\<open>error\<close> are values of the
  datatype \<open>error\<close>, a nil error or pointer is \<open>None\<close>, a run-time panic is \<open>Inl\<close> of a sum.
  Collaborators (the HTTP transport, the context, the clock, the executor, the metrics
  pusher, the notifier) are parameters of the model; every call the code makes to one of
  them is recorded in the value the model returns.
\<close>

section \<open>Errors\<close>

text \<open>
  \<^verbatim>\<open>errors.New(m)\<close> and errors made by collaborators are \<open>errorString m\<close>;
  \<^verbatim>\<open>context.Canceled\<close> and \<^verbatim>\<open>context.DeadlineExceeded\<close> are constructors of their own;
  \<^verbatim>\<open>fmt.Errorf(p + "%w", e)\<close> is \<open>Errorf p e\<close>, where \<open>e\<close> may be nil (\<open>None\<close>), as in the
  last line of \<^verbatim>\<open>Do\<close> when no attempt was made.
\<close>

datatype error =
    errorString string
  | Canceled
  | DeadlineExceeded
  | Errorf string "error option"

fun error_Error :: "error \<Rightarrow> string" where
  "error_Error (errorString m) = m"
| "error_Error Canceled = ''context canceled''"
| "error_Error DeadlineExceeded = ''context deadline exceeded''"
| "error_Error (Errorf p None) = p @ ''%!w(<nil>)''"
| "error_Error (Errorf p (Some e)) = p @ error_Error e"

text \<open>The verb \<^verbatim>\<open>%d\<close> of package \<^verbatim>\<open>fmt\<close>: an integer in decimal.\<close>

fun decimal_nat :: "nat \<Rightarrow> string" where
  "decimal_nat n =
     (if n < 10 then [char_of (48 + n)]
      else decimal_nat (n div 10) @ [char_of (48 + n mod 10)])"

definition decimal :: "int \<Rightarrow> string" where
  "decimal i = (if i < 0 then CHR ''-'' # decimal_nat (nat (- i)) else decimal_nat (nat i))"

section \<open>The float64 arithmetic of calculateDelay\<close>

text \<open>
  \<^verbatim>\<open>calculateDelay\<close> computes in \<^verbatim>\<open>float64\<close>. The values it can meet are rationals,
  the two infinities and NaN (the sign of a zero is never observed). Four operations
  occur: the conversion of an \<^verbatim>\<open>int64\<close> to \<^verbatim>\<open>float64\<close>, \<^verbatim>\<open>math.Pow(2, k)\<close> for
  an integer \<open>k\<close>, one multiplication, one comparison, and the conversion back to
  \<^verbatim>\<open>time.Duration\<close> (an \<^verbatim>\<open>int64\<close> of nanoseconds).
\<close>

datatype float64 = Finite rat | PosInf | NegInf | NaN

text \<open>
  An integer of magnitude below \<open>2^53\<close> converts exactly. A larger one keeps its 53
  leading bits: \<open>excess_bits a\<close> low bits are rounded away, to the nearest multiple of
  \<open>2 ^ excess_bits a\<close>, a tie going to the multiple whose quotient is even.
\<close>

function excess_bits :: "int \<Rightarrow> nat" where
  "excess_bits a = (if a < 2 ^ 53 then 0 else Suc (excess_bits (a div 2)))"
  by pat_completeness auto
termination
  by (relation "measure nat") auto

definition round_half_even :: "nat \<Rightarrow> int \<Rightarrow> int" where
  "round_half_even s a =
     (let q = a div 2 ^ s; r = a mod 2 ^ s; h = 2 ^ s div 2
      in if r < h \<or> (r = h \<and> even q) then q * 2 ^ s else (q + 1) * 2 ^ s)"

definition round53 :: "int \<Rightarrow> int" where
  "round53 a = (if a < 2 ^ 53 then a else round_half_even (excess_bits a) a)"

definition float64_of_int64 :: "int \<Rightarrow> float64" where
  "float64_of_int64 d = Finite (of_int (sgn d * round53 \<bar>d\<bar>))"

text \<open>
  \<^verbatim>\<open>math.Pow(2, float64(k))\<close> for an integer \<open>k\<close>: the power of two when it is a
  \<^verbatim>\<open>float64\<close> (\<open>-1074 \<le> k \<le> 1023\<close>), \<open>+Inf\<close> above and \<open>0\<close> below.
\<close>

definition Pow2 :: "int \<Rightarrow> float64" where
  "Pow2 k = (if 1024 \<le> k then PosInf else if k < - 1074 then Finite 0 else Finite (2 powi k))"

text \<open>
  The product. In \<^verbatim>\<open>calculateDelay\<close> the left factor is a converted integer (at most
  53 significant bits) and the right one a power of two, so a finite product needs no
  rounding; a magnitude of \<open>2^1024\<close> or more overflows to an infinity, and zero times an
  infinity is NaN.
\<close>

fun float64_mul :: "float64 \<Rightarrow> float64 \<Rightarrow> float64" where
  "float64_mul (Finite a) (Finite b) =
     (if 2 ^ 1024 \<le> \<bar>a * b\<bar> then (if 0 < a * b then PosInf else NegInf) else Finite (a * b))"
| "float64_mul (Finite a) PosInf = (if a = 0 then NaN else if 0 < a then PosInf else NegInf)"
| "float64_mul (Finite a) NegInf = (if a = 0 then NaN else if 0 < a then NegInf else PosInf)"
| "float64_mul PosInf (Finite b) = (if b = 0 then NaN else if 0 < b then PosInf else NegInf)"
| "float64_mul NegInf (Finite b) = (if b = 0 then NaN else if 0 < b then NegInf else PosInf)"
| "float64_mul PosInf PosInf = PosInf"
| "float64_mul NegInf NegInf = PosInf"
| "float64_mul PosInf NegInf = NegInf"
| "float64_mul NegInf PosInf = NegInf"
| "float64_mul NaN _ = NaN"
| "float64_mul _ NaN = NaN"

fun float64_gt :: "float64 \<Rightarrow> float64 \<Rightarrow> bool" where
  "float64_gt NaN _ = False"
| "float64_gt _ NaN = False"
| "float64_gt (Finite a) (Finite b) = (b < a)"
| "float64_gt PosInf PosInf = False"
| "float64_gt PosInf _ = True"
| "float64_gt NegInf _ = False"
| "float64_gt (Finite a) NegInf = True"
| "float64_gt (Finite a) PosInf = False"

text \<open>
  \<^verbatim>\<open>time.Duration(delay)\<close>: a finite value is truncated toward zero. The Go
  specification leaves the result implementation-dependent when the truncated value is
  not an \<^verbatim>\<open>int64\<close> (also for an infinity or NaN).
\<close>

datatype duration = Nanoseconds int | ImplementationDependent

definition toward_zero :: "rat \<Rightarrow> int" where
  "toward_zero q = (if 0 \<le> q then \<lfloor>q\<rfloor> else \<lceil>q\<rceil>)"

fun Duration_of_float64 :: "float64 \<Rightarrow> duration" where
  "Duration_of_float64 (Finite q) =
     (if - (2 ^ 63) \<le> toward_zero q \<and> toward_zero q < 2 ^ 63 then Nanoseconds (toward_zero q)
      else ImplementationDependent)"
| "Duration_of_float64 PosInf = ImplementationDependent"
| "Duration_of_float64 NegInf = ImplementationDependent"
| "Duration_of_float64 NaN = ImplementationDependent"

section \<open>RetryConfig, calculateDelay, shouldRetry\<close>

text \<open>Durations are \<^verbatim>\<open>int64\<close> nanoseconds; \<open>MaxAttempts\<close> is a Go \<^verbatim>\<open>int\<close>.\<close>

record RetryConfig =
  MaxAttempts :: int
  InitialDelay :: int
  MaxDelay :: int

definition DefaultRetryConfig :: RetryConfig where
  "DefaultRetryConfig =
     \<lparr>MaxAttempts = 3, InitialDelay = 5 * 1000000000, MaxDelay = 30 * 1000000000\<rparr>"

definition calculateDelay :: "RetryConfig \<Rightarrow> int \<Rightarrow> duration" where
  "calculateDelay c attempt =
     (let delay = float64_mul (float64_of_int64 (InitialDelay c)) (Pow2 (attempt - 1))
      in if float64_gt delay (float64_of_int64 (MaxDelay c)) then Nanoseconds (MaxDelay c)
         else Duration_of_float64 delay)"

definition StatusTooManyRequests :: int where "StatusTooManyRequests = 429"
definition StatusInternalServerError :: int where "StatusInternalServerError = 500"
definition StatusBadGateway :: int where "StatusBadGateway = 502"
definition StatusServiceUnavailable :: int where "StatusServiceUnavailable = 503"
definition StatusGatewayTimeout :: int where "StatusGatewayTimeout = 504"

definition shouldRetry :: "int \<Rightarrow> bool" where
  "shouldRetry statusCode =
     (if statusCode = StatusTooManyRequests \<or> statusCode = StatusInternalServerError
         \<or> statusCode = StatusBadGateway \<or> statusCode = StatusServiceUnavailable
         \<or> statusCode = StatusGatewayTimeout
      then True else False)"

section \<open>Client.Do\<close>

text \<open>
  The caller's request: only its body matters to the retry logic. \<open>req_Body\<close> is
  \<open>None\<close> for a nil body, and otherwise what \<^verbatim>\<open>io.ReadAll(req.Body)\<close> gives: an error or
  the bytes. The transport's answer \<^verbatim>\<open>*http.Response\<close> carries its status, its header
  and a body whose reading may fail in the same way.
\<close>

record Request =
  req_Method :: string
  req_URL :: string
  req_Body :: "(error + string) option"

record http_Response =
  resp_StatusCode :: int
  resp_Header :: "string \<rightharpoonup> string list"
  resp_Body :: "error + string"

record Response =
  StatusCode :: int
  Body :: string
  Headers :: "string \<rightharpoonup> string list"

text \<open>
  What \<^verbatim>\<open>Do\<close> returns, \<^verbatim>\<open>(*Response, error)\<close>, together with what it did on the way:
  the attempts on which it called \<^verbatim>\<open>c.httpClient.Do\<close>, in order, and the delays it gave
  to \<^verbatim>\<open>time.After\<close>, in order.
\<close>

record DoResult =
  do_response :: "Response option"
  do_error :: "error option"
  do_calls :: "int list"
  do_waits :: "duration list"

text \<open>
  The loop of \<^verbatim>\<open>Do\<close>, from the attempt \<open>attempt\<close> on. \<open>httpClient_Do attempt\<close> is
  what the transport returns on that attempt. \<open>ctx attempt\<close> decides the
  \<^verbatim>\<open>select\<close> that follows a failed attempt: \<open>Some e\<close> when the case
  \<^verbatim>\<open><-ctx.Done()\<close> is taken (the context was cancelled before the timer fired) and
  \<^verbatim>\<open>ctx.Err()\<close> is \<open>e\<close>, \<open>None\<close> when the case \<^verbatim>\<open><-time.After(delay)\<close> is taken.
  It is consulted only where the code reaches a \<^verbatim>\<open>select\<close>.
\<close>

function attempts ::
  "RetryConfig \<Rightarrow> (int \<Rightarrow> error + http_Response) \<Rightarrow> (int \<Rightarrow> error option) \<Rightarrow>
   int \<Rightarrow> error option \<Rightarrow> int list \<Rightarrow> duration list \<Rightarrow> DoResult" where
  "attempts c httpClient_Do ctx attempt lastErr calls waits =
     (if attempt \<le> MaxAttempts c then
        (case httpClient_Do attempt of
           Inl err \<Rightarrow>
             if attempt < MaxAttempts c then
               (let delay = calculateDelay c attempt in
                case ctx attempt of
                  Some e \<Rightarrow>
                    \<lparr>do_response = None, do_error = Some e,
                     do_calls = calls @ [attempt], do_waits = waits @ [delay]\<rparr>
                | None \<Rightarrow>
                    attempts c httpClient_Do ctx (attempt + 1) (Some err)
                      (calls @ [attempt]) (waits @ [delay]))
             else
               attempts c httpClient_Do ctx (attempt + 1) (Some err) (calls @ [attempt]) waits
         | Inr resp \<Rightarrow>
             (case resp_Body resp of
                Inl err \<Rightarrow>
                  attempts c httpClient_Do ctx (attempt + 1)
                    (Some (Errorf ''failed to read response body: '' (Some err)))
                    (calls @ [attempt]) waits
              | Inr body \<Rightarrow>
                  if shouldRetry (resp_StatusCode resp) \<and> attempt < MaxAttempts c then
                    (let lastErr' = errorString (''HTTP '' @ decimal (resp_StatusCode resp) @ '': '' @ body);
                         delay = calculateDelay c attempt in
                     case ctx attempt of
                       Some e \<Rightarrow>
                         \<lparr>do_response = None, do_error = Some e,
                          do_calls = calls @ [attempt], do_waits = waits @ [delay]\<rparr>
                     | None \<Rightarrow>
                         attempts c httpClient_Do ctx (attempt + 1) (Some lastErr')
                           (calls @ [attempt]) (waits @ [delay]))
                  else
                    \<lparr>do_response =
                       Some \<lparr>StatusCode = resp_StatusCode resp, Body = body,
                             Headers = resp_Header resp\<rparr>,
                     do_error = None, do_calls = calls @ [attempt], do_waits = waits\<rparr>))
      else
        \<lparr>do_response = None,
         do_error =
           Some (Errorf (''request failed after '' @ decimal (MaxAttempts c) @ '' attempts: '')
                   lastErr),
         do_calls = calls, do_waits = waits\<rparr>)"
  by pat_completeness auto
termination
  by (relation "measure (\<lambda>(c, httpClient_Do, ctx, attempt, lastErr, calls, waits).
        nat (MaxAttempts c + 1 - attempt))") auto

text \<open>
  \<^verbatim>\<open>Do\<close>: the request body, if there is one, is read once before the first attempt
  (a failure to read it ends the call); then the loop starts at attempt 1 with no error
  and nothing done.
\<close>

definition Do ::
  "RetryConfig \<Rightarrow> (int \<Rightarrow> error + http_Response) \<Rightarrow> (int \<Rightarrow> error option) \<Rightarrow>
   Request \<Rightarrow> DoResult" where
  "Do c httpClient_Do ctx req =
     (case req_Body req of
        Some (Inl err) \<Rightarrow>
          \<lparr>do_response = None,
           do_error = Some (Errorf ''failed to read request body: '' (Some err)),
           do_calls = [], do_waits = []\<rparr>
      | _ \<Rightarrow> attempts c httpClient_Do ctx 1 None [] [])"

section \<open>Package domain: operation results, cycle results, metrics, notifications\<close>

text \<open>
  A \<^verbatim>\<open>time.Time\<close> is an integer of nanoseconds since the zero time, a
  \<^verbatim>\<open>time.Duration\<close> an \<^verbatim>\<open>int64\<close> of nanoseconds; \<^verbatim>\<open>t.Sub(u)\<close> saturates at the ends of
  \<^verbatim>\<open>int64\<close>. Where two structs of the source have a field of the same name, the field is
  written with its record: \<open>BackupResult.Success\<close>, \<open>RunResult.Success\<close>.
\<close>

definition Time_Sub :: "int \<Rightarrow> int \<Rightarrow> int" where
  "Time_Sub t u =
     (let d = t - u
      in if d < - (2 ^ 63) then - (2 ^ 63) else if 2 ^ 63 - 1 < d then 2 ^ 63 - 1 else d)"

definition OperationBackup :: string where
  "OperationBackup = ''backup''"

definition OperationCloudUpload :: string where
  "OperationCloudUpload = ''cloud_upload''"

record BackupStats =
  TotalGames :: int
  ProcessedGames :: int
  TotalBytes :: int
  ProcessedBytes :: int
  NewGames :: int
  ChangedGames :: int
  SameGames :: int

definition BackupStats_zero :: BackupStats where
  "BackupStats_zero =
     \<lparr>TotalGames = 0, ProcessedGames = 0, TotalBytes = 0, ProcessedBytes = 0,
      NewGames = 0, ChangedGames = 0, SameGames = 0\<rparr>"

record BackupResult =
  Operation :: string
  Success :: bool
  StartTime :: int
  EndTime :: int
  Duration :: int
  Stats :: BackupStats
  Error :: string

record RunResult =
  StartTime :: int
  EndTime :: int
  Duration :: int
  Success :: bool
  DryRun :: bool
  Backup :: "BackupResult option"
  CloudUpload :: "BackupResult option"
  Errors :: "string list"

record Metrics =
  Timestamp :: int
  Hostname :: string
  ServiceUp :: bool
  Version :: string
  GoVersion :: string
  Results :: "BackupResult list"

definition NotificationLevelInfo :: string where
  "NotificationLevelInfo = ''info''"

definition NotificationLevelWarning :: string where
  "NotificationLevelWarning = ''warning''"

definition NotificationLevelError :: string where
  "NotificationLevelError = ''error''"

record Notification =
  Title :: string
  Body :: string
  Level :: string

definition NewNotification :: "string \<Rightarrow> string \<Rightarrow> string \<Rightarrow> Notification" where
  "NewNotification title body level =
     \<lparr>Title = title, Notification.Body = body, Level = level\<rparr>"

definition InfoNotification :: "string \<Rightarrow> string \<Rightarrow> Notification" where
  "InfoNotification title body = NewNotification title body NotificationLevelInfo"

definition ErrorNotification :: "string \<Rightarrow> string \<Rightarrow> Notification" where
  "ErrorNotification title body = NewNotification title body NotificationLevelError"

section \<open>The world a cycle runs in\<close>

text \<open>
  \<open>clock\<close> gives the successive readings of \<^verbatim>\<open>time.Now()\<close> and \<open>ticks\<close> counts the
  readings taken. \<open>durationText d\<close> stands for the standard library's text of
  \<^verbatim>\<open>d.Round(100000000)\<close> under the verb \<^verbatim>\<open>%s\<close>. \<open>trace\<close> lists, in order, what the
  Runner did to its collaborators: each call of an Executor method (with the
  \<^verbatim>\<open>Force\<close> flag of its options), each \<^verbatim>\<open>Push\<close>, each \<^verbatim>\<open>Notify\<close>, and each line it logged
  (level and message; the attributes of a log line are left out).
\<close>

datatype level = LevelDebug | LevelInfo | LevelWarn | LevelError

datatype event =
    Logged level string
  | ExecutorCloudUpload bool
  | ExecutorBackup bool
  | Pushed Metrics
  | Notified Notification

record world =
  clock :: "nat \<Rightarrow> int"
  durationText :: "int \<Rightarrow> string"
  ticks :: nat
  trace :: "event list"

definition time_Now :: "world \<Rightarrow> int \<times> world" where
  "time_Now w = (clock w (ticks w), w\<lparr>ticks := Suc (ticks w)\<rparr>)"

definition emit :: "event \<Rightarrow> world \<Rightarrow> world" where
  "emit e w = w\<lparr>trace := trace w @ [e]\<rparr>"

fun is_executor_call :: "event \<Rightarrow> bool" where
  "is_executor_call (ExecutorCloudUpload f) = True"
| "is_executor_call (ExecutorBackup f) = True"
| "is_executor_call _ = False"

fun is_push :: "event \<Rightarrow> bool" where
  "is_push (Pushed m) = True"
| "is_push _ = False"

fun is_notify :: "event \<Rightarrow> bool" where
  "is_notify (Notified n) = True"
| "is_notify _ = False"

subsection \<open>Constructors and methods of the result types\<close>

definition NewBackupResult :: "string \<Rightarrow> world \<Rightarrow> BackupResult \<times> world" where
  "NewBackupResult op w =
     (let (now, w') = time_Now w
      in (\<lparr>Operation = op, BackupResult.Success = False, BackupResult.StartTime = now,
           BackupResult.EndTime = 0, BackupResult.Duration = 0, Stats = BackupStats_zero,
           Error = []\<rparr>, w'))"

definition BackupResult_Complete ::
  "BackupResult \<Rightarrow> bool \<Rightarrow> error option \<Rightarrow> world \<Rightarrow> BackupResult \<times> world" where
  "BackupResult_Complete r success err w =
     (let (now, w') = time_Now w;
          r1 = r\<lparr>BackupResult.EndTime := now,
                 BackupResult.Duration := Time_Sub now (BackupResult.StartTime r),
                 BackupResult.Success := success\<rparr>
      in (case err of None \<Rightarrow> r1 | Some e \<Rightarrow> r1\<lparr>Error := error_Error e\<rparr>, w'))"

definition NewRunResult :: "bool \<Rightarrow> world \<Rightarrow> RunResult \<times> world" where
  "NewRunResult dryRun w =
     (let (now, w') = time_Now w
      in (\<lparr>RunResult.StartTime = now, RunResult.EndTime = 0, RunResult.Duration = 0,
           RunResult.Success = False, DryRun = dryRun, Backup = None, CloudUpload = None,
           Errors = []\<rparr>, w'))"

definition RunResult_Complete :: "RunResult \<Rightarrow> world \<Rightarrow> RunResult \<times> world" where
  "RunResult_Complete r w =
     (let (now, w') = time_Now w;
          r1 = r\<lparr>RunResult.EndTime := now,
                 RunResult.Duration := Time_Sub now (RunResult.StartTime r),
                 RunResult.Success := True\<rparr>;
          r2 = (case CloudUpload r1 of
                  Some u \<Rightarrow>
                    if \<not> BackupResult.Success u then r1\<lparr>RunResult.Success := False\<rparr> else r1
                | None \<Rightarrow> r1);
          r3 = (case Backup r2 of
                  Some b \<Rightarrow>
                    if \<not> BackupResult.Success b then r2\<lparr>RunResult.Success := False\<rparr> else r2
                | None \<Rightarrow> r2)
      in (r3, w'))"

definition AddError :: "RunResult \<Rightarrow> error option \<Rightarrow> RunResult" where
  "AddError r err =
     (case err of None \<Rightarrow> r | Some e \<Rightarrow> r\<lparr>Errors := Errors r @ [error_Error e]\<rparr>)"

definition NewMetrics :: "string \<Rightarrow> world \<Rightarrow> Metrics \<times> world" where
  "NewMetrics hostname w =
     (let (now, w') = time_Now w
      in (\<lparr>Timestamp = now, Hostname = hostname, ServiceUp = True, Version = [],
           GoVersion = [], Results = []\<rparr>, w'))"

definition AddResult :: "Metrics \<Rightarrow> BackupResult option \<Rightarrow> Metrics" where
  "AddResult m result =
     (case result of None \<Rightarrow> m | Some r \<Rightarrow> m\<lparr>Results := Results m @ [r]\<rparr>)"

section \<open>Package app: the Runner\<close>

text \<open>
  Of \<^verbatim>\<open>config.Config\<close> the Runner reads \<^verbatim>\<open>DryRun\<close> and \<^verbatim>\<open>Apprise.Notify\<close> only. A
  \<^verbatim>\<open>NotifyLevel\<close> is a string.
\<close>

definition NotifyError :: string where
  "NotifyError = ''error''"

definition NotifyWarning :: string where
  "NotifyWarning = ''warning''"

definition NotifyAlways :: string where
  "NotifyAlways = ''always''"

record AppriseConfig =
  Notify :: string

record Config =
  DryRun :: bool
  Apprise :: AppriseConfig

text \<open>
  The collaborators. A method of the Executor returns a Go pair
  \<^verbatim>\<open>(*BackupResult, error)\<close>, each part of which may be nil; \<^verbatim>\<open>Push\<close> and
  \<^verbatim>\<open>Notify\<close> return an \<^verbatim>\<open>error\<close>. Within one cycle each is called at most once, so what
  it returns is a function of its argument.
\<close>

record BackupOptions =
  Force :: bool

record UploadOptions =
  Force :: bool

record Executor =
  Backup :: "BackupOptions \<Rightarrow> BackupResult option \<times> error option"
  CloudUpload :: "UploadOptions \<Rightarrow> BackupResult option \<times> error option"

type_synonym MetricsPusher = "Metrics \<Rightarrow> error option"

type_synonym Notifier = "Notification \<Rightarrow> error option"

definition NopNotifier :: Notifier where
  "NopNotifier = (\<lambda>notification. None)"

record Runner =
  executor :: "Executor option"
  metricsPusher :: "MetricsPusher option"
  notifier :: "Notifier option"
  config :: Config
  hostname :: string

text \<open>
  \<^verbatim>\<open>NewRunner(cfg, opts...)\<close>: no executor, no metrics pusher, the no-op notifier; then
  the options in order. \<open>os_Hostname\<close> is what \<^verbatim>\<open>os.Hostname()\<close> returned. The
  configuration and the logger of a Runner are not nil: every call of \<^verbatim>\<open>NewRunner\<close> in
  the repository passes a configuration, and the logger is \<^verbatim>\<open>slog.Default()\<close> or the one
  that \<^verbatim>\<open>WithLogger\<close> is given. The lines of the logger go to the trace.
\<close>

definition WithExecutor :: "Executor option \<Rightarrow> Runner \<Rightarrow> Runner" where
  "WithExecutor e = (\<lambda>r. r\<lparr>executor := e\<rparr>)"

definition WithMetricsPusher :: "MetricsPusher option \<Rightarrow> Runner \<Rightarrow> Runner" where
  "WithMetricsPusher m = (\<lambda>r. r\<lparr>metricsPusher := m\<rparr>)"

definition WithNotifier :: "Notifier option \<Rightarrow> Runner \<Rightarrow> Runner" where
  "WithNotifier n = (\<lambda>r. r\<lparr>notifier := n\<rparr>)"

definition NewRunner :: "string \<Rightarrow> Config \<Rightarrow> (Runner \<Rightarrow> Runner) list \<Rightarrow> Runner" where
  "NewRunner os_Hostname cfg opts =
     fold (\<lambda>opt r. opt r) opts
       \<lparr>executor = None, metricsPusher = None, notifier = Some NopNotifier, config = cfg,
        hostname = os_Hostname\<rparr>"

text \<open>A panic of the Go run time: here only the dereference of a nil pointer or interface.\<close>

datatype panic = NilPointerDereference

definition runCloudUpload ::
  "Runner \<Rightarrow> world \<Rightarrow> panic + ((BackupResult option \<times> error option) \<times> world)" where
  "runCloudUpload r w =
     (let w1 = emit (Logged LevelDebug ''starting cloud upload'') w in
      if Config.DryRun (config r) then
        (let w2 = emit (Logged LevelInfo ''dry run: skipping cloud upload'') w1;
             (result, w3) = NewBackupResult OperationCloudUpload w2;
             (result, w4) = BackupResult_Complete result True None w3
         in Inr ((Some result, None), w4))
      else
        (case executor r of
           None \<Rightarrow> Inl NilPointerDereference
         | Some ex \<Rightarrow>
             (let w2 = emit (ExecutorCloudUpload True) w1 in
              case Executor.CloudUpload ex \<lparr>UploadOptions.Force = True\<rparr> of
                (result, Some err) \<Rightarrow>
                  Inr ((None, Some (Errorf ''cloud upload error: '' (Some err))), w2)
              | (None, None) \<Rightarrow> Inl NilPointerDereference
              | (Some result, None) \<Rightarrow>
                  (let w3 = (if BackupResult.Success result
                             then emit (Logged LevelInfo ''cloud upload completed'') w2
                             else emit (Logged LevelWarn ''cloud upload failed'') w2)
                   in Inr ((Some result, None), w3)))))"

definition runBackup ::
  "Runner \<Rightarrow> world \<Rightarrow> panic + ((BackupResult option \<times> error option) \<times> world)" where
  "runBackup r w =
     (let w1 = emit (Logged LevelDebug ''starting local backup'') w in
      if Config.DryRun (config r) then
        (let w2 = emit (Logged LevelInfo ''dry run: skipping local backup'') w1;
             (result, w3) = NewBackupResult OperationBackup w2;
             (result, w4) = BackupResult_Complete result True None w3
         in Inr ((Some result, None), w4))
      else
        (case executor r of
           None \<Rightarrow> Inl NilPointerDereference
         | Some ex \<Rightarrow>
             (let w2 = emit (ExecutorBackup True) w1 in
              case Executor.Backup ex \<lparr>BackupOptions.Force = True\<rparr> of
                (result, Some err) \<Rightarrow>
                  Inr ((None, Some (Errorf ''backup error: '' (Some err))), w2)
              | (None, None) \<Rightarrow> Inl NilPointerDereference
              | (Some result, None) \<Rightarrow>
                  (let w3 = (if BackupResult.Success result
                             then emit (Logged LevelInfo ''local backup completed'') w2
                             else emit (Logged LevelWarn ''local backup failed'') w2)
                   in Inr ((Some result, None), w3)))))"

definition pushMetrics :: "Runner \<Rightarrow> RunResult \<Rightarrow> world \<Rightarrow> error option \<times> world" where
  "pushMetrics r result w =
     (case metricsPusher r of
        None \<Rightarrow> (None, w)
      | Some pusher \<Rightarrow>
          (let (metrics, w1) = NewMetrics (hostname r) w;
               metrics = metrics\<lparr>ServiceUp := True\<rparr>;
               metrics = (case RunResult.CloudUpload result of
                            Some u \<Rightarrow> AddResult metrics (Some u) | None \<Rightarrow> metrics);
               metrics = (case RunResult.Backup result of
                            Some b \<Rightarrow> AddResult metrics (Some b) | None \<Rightarrow> metrics)
           in (pusher metrics, emit (Pushed metrics) w1)))"

definition buildErrorMessage :: "Runner \<Rightarrow> RunResult \<Rightarrow> string" where
  "buildErrorMessage r result =
     (let msg = ''Backup failed on '' @ hostname r @ ''.\<newline>'';
          msg = (case RunResult.CloudUpload result of
                   Some u \<Rightarrow>
                     if \<not> BackupResult.Success u
                     then msg @ ''Cloud upload error: '' @ Error u @ ''\<newline>'' else msg
                 | None \<Rightarrow> msg);
          msg = (case RunResult.Backup result of
                   Some b \<Rightarrow>
                     if \<not> BackupResult.Success b
                     then msg @ ''Backup error: '' @ Error b @ ''\<newline>'' else msg
                 | None \<Rightarrow> msg)
      in foldl (\<lambda>msg err. msg @ ''Error: '' @ err @ ''\<newline>'') msg (Errors result))"

definition buildSuccessMessage :: "Runner \<Rightarrow> (int \<Rightarrow> string) \<Rightarrow> RunResult \<Rightarrow> string" where
  "buildSuccessMessage r roundedText result =
     (let msg = ''Backup completed successfully on '' @ hostname r @ ''.\<newline>'';
          msg = (case RunResult.Backup result of
                   Some b \<Rightarrow>
                     (let msg = msg @ ''Games: '' @ decimal (TotalGames (Stats b)) @ '' total, ''
                                  @ decimal (ProcessedGames (Stats b)) @ '' processed\<newline>''
                      in if 0 < NewGames (Stats b) \<or> 0 < ChangedGames (Stats b)
                         then msg @ ''Changes: '' @ decimal (NewGames (Stats b)) @ '' new, ''
                                @ decimal (ChangedGames (Stats b)) @ '' updated\<newline>''
                         else msg)
                 | None \<Rightarrow> msg)
      in msg @ ''Duration: '' @ roundedText (RunResult.Duration result))"

text \<open>
  The \<^verbatim>\<open>switch\<close> of \<^verbatim>\<open>sendNotifications\<close>: the values of \<^verbatim>\<open>shouldNotify\<close> and
  \<^verbatim>\<open>notification\<close> after it. \<open>roundedText\<close> is the world's \<open>durationText\<close>.
\<close>

definition notification_switch ::
  "Runner \<Rightarrow> (int \<Rightarrow> string) \<Rightarrow> RunResult \<Rightarrow> bool \<times> Notification option" where
  "notification_switch r roundedText result =
     (let notifyLevel = Notify (Apprise (config r)) in
      if \<not> RunResult.Success result
         \<and> (notifyLevel = NotifyError \<or> notifyLevel = NotifyWarning \<or> notifyLevel = NotifyAlways)
      then (True, Some (ErrorNotification ''Ludusavi Backup Failed'' (buildErrorMessage r result)))
      else if notifyLevel = NotifyAlways
      then (True, Some (InfoNotification ''Ludusavi Backup Completed''
                          (buildSuccessMessage r roundedText result)))
      else (False, None))"

definition sendNotifications :: "Runner \<Rightarrow> RunResult \<Rightarrow> world \<Rightarrow> error option \<times> world" where
  "sendNotifications r result w =
     (case notifier r of
        None \<Rightarrow> (None, w)
      | Some n \<Rightarrow>
          (let (shouldNotify, notification) = notification_switch r (durationText w) result in
           case notification of
             None \<Rightarrow> (None, w)
           | Some notification \<Rightarrow>
               if \<not> shouldNotify then (None, w)
               else (n notification, emit (Notified notification) w)))"

text \<open>
  The two operations of \<^verbatim>\<open>Run\<close> (its lines under \<^verbatim>\<open>if r.executor != nil\<close>): cloud upload
  first, then local backup, each error logged and added to the result.
\<close>

definition runOperations :: "Runner \<Rightarrow> RunResult \<Rightarrow> world \<Rightarrow> panic + (RunResult \<times> world)" where
  "runOperations r result w =
     (case runCloudUpload r w of
        Inl p \<Rightarrow> Inl p
      | Inr ((uploadResult, err), w1) \<Rightarrow>
          (let (result, w2) =
                 (case err of
                    Some e \<Rightarrow>
                      (AddError result (Some e), emit (Logged LevelError ''cloud upload failed'') w1)
                  | None \<Rightarrow> (result, w1));
               result = result\<lparr>RunResult.CloudUpload := uploadResult\<rparr>
           in case runBackup r w2 of
                Inl p \<Rightarrow> Inl p
              | Inr ((backupResult, err), w3) \<Rightarrow>
                  (let (result, w4) =
                         (case err of
                            Some e \<Rightarrow>
                              (AddError result (Some e), emit (Logged LevelError ''backup failed'') w3)
                          | None \<Rightarrow> (result, w3));
                       result = result\<lparr>RunResult.Backup := backupResult\<rparr>
                   in Inr (result, w4))))"

text \<open>
  The rest of \<^verbatim>\<open>Run\<close>, from \<^verbatim>\<open>result.Complete()\<close> to its \<^verbatim>\<open>return result, nil\<close>:
  complete the result, push the metrics (an error is logged and added to the result),
  send the notification (an error is logged), log the end of the run.
\<close>

definition completeAndReport ::
  "Runner \<Rightarrow> RunResult \<Rightarrow> world \<Rightarrow> (RunResult option \<times> error option) \<times> world" where
  "completeAndReport r result w =
     (let (result, w1) = RunResult_Complete result w;
          (err, w2) = pushMetrics r result w1;
          (result, w3) =
            (case err of
               Some e \<Rightarrow>
                 (AddError result (Some e), emit (Logged LevelError ''failed to push metrics'') w2)
             | None \<Rightarrow> (result, w2));
          (err, w4) = sendNotifications r result w3;
          w5 = (case err of
                  Some e \<Rightarrow> emit (Logged LevelError ''failed to send notification'') w4
                | None \<Rightarrow> w4);
          w6 = emit (Logged LevelInfo ''backup run completed'') w5
      in ((Some result, None), w6))"

text \<open>
  \<^verbatim>\<open>Run\<close> returns \<^verbatim>\<open>(*RunResult, error)\<close>; the model returns that pair and the world
  after the cycle, or the panic that ended it.
\<close>

definition Run :: "Runner \<Rightarrow> world \<Rightarrow> panic + ((RunResult option \<times> error option) \<times> world)" where
  "Run r w =
     (let (result, w1) = NewRunResult (Config.DryRun (config r)) w;
          w2 = emit (Logged LevelInfo ''starting backup run'') w1
      in case (case executor r of
                 Some ex \<Rightarrow> runOperations r result w2
               | None \<Rightarrow> Inr (result, w2)) of
           Inl p \<Rightarrow> Inl p
         | Inr (result, w3) \<Rightarrow> Inr (completeAndReport r result w3))"

section \<open>Words of the claims\<close>

subsection \<open>About the client\<close>

text \<open>
  An attempt's outcome is retryable when the transport failed, when the body of the
  answer could not be read, or when the answer has a retryable status. A
  \<^verbatim>\<open>select\<close> on the context and the timer follows the first and the third kind (on an
  attempt that is not the last); after an unreadable body the loop goes on at once.
\<close>

definition retryable_outcome :: "error + http_Response \<Rightarrow> bool" where
  "retryable_outcome out =
     (case out of
        Inl err \<Rightarrow> True
      | Inr resp \<Rightarrow>
          (case resp_Body resp of
             Inl err \<Rightarrow> True
           | Inr body \<Rightarrow> shouldRetry (resp_StatusCode resp)))"

definition select_follows :: "error + http_Response \<Rightarrow> bool" where
  "select_follows out =
     (case out of
        Inl err \<Rightarrow> True
      | Inr resp \<Rightarrow>
          (case resp_Body resp of
             Inl err \<Rightarrow> False
           | Inr body \<Rightarrow> shouldRetry (resp_StatusCode resp)))"

text \<open>
  The attempts after which \<^verbatim>\<open>Do\<close> waits: those that are not the last and are followed by
  a \<^verbatim>\<open>select\<close>, whose timer is set to \<^verbatim>\<open>calculateDelay(attempt)\<close>.
\<close>

definition waited_after :: "RetryConfig \<Rightarrow> (int \<Rightarrow> error + http_Response) \<Rightarrow> int \<Rightarrow> bool" where
  "waited_after c t n = (n < MaxAttempts c \<and> select_follows (t n))"

text \<open>The value of \<^verbatim>\<open>lastErr\<close> after a retried attempt, and the delays it waited.\<close>

definition retry_error :: "error + http_Response \<Rightarrow> error" where
  "retry_error out =
     (case out of
        Inl err \<Rightarrow> err
      | Inr resp \<Rightarrow>
          (case resp_Body resp of
             Inl err \<Rightarrow> Errorf ''failed to read response body: '' (Some err)
           | Inr body \<Rightarrow>
               errorString (''HTTP '' @ decimal (resp_StatusCode resp) @ '': '' @ body)))"

definition retry_waits :: "RetryConfig \<Rightarrow> int \<Rightarrow> error + http_Response \<Rightarrow> duration list" where
  "retry_waits c attempt out = (if select_follows out then [calculateDelay c attempt] else [])"

text \<open>
  What \<^verbatim>\<open>Do\<close> returns when the last permitted attempt had the outcome \<open>out\<close>: a
  readable answer is returned as it is, with no error; any failure is wrapped in
  \<^verbatim>\<open>request failed after N attempts\<close>, with no response.
\<close>

definition exhausted :: "RetryConfig \<Rightarrow> error \<Rightarrow> error" where
  "exhausted c e =
     Errorf (''request failed after '' @ decimal (MaxAttempts c) @ '' attempts: '') (Some e)"

definition last_result ::
  "RetryConfig \<Rightarrow> error + http_Response \<Rightarrow> Response option \<times> error option" where
  "last_result c out =
     (case out of
        Inl err \<Rightarrow> (None, Some (exhausted c err))
      | Inr resp \<Rightarrow>
          (case resp_Body resp of
             Inl err \<Rightarrow>
               (None, Some (exhausted c (Errorf ''failed to read response body: '' (Some err))))
           | Inr body \<Rightarrow>
               (Some \<lparr>StatusCode = resp_StatusCode resp, Response.Body = body,
                      Headers = resp_Header resp\<rparr>,
                None)))"

definition readable_request :: "Request \<Rightarrow> bool" where
  "readable_request req = (case req_Body req of Some (Inl err) \<Rightarrow> False | _ \<Rightarrow> True)"

subsection \<open>About the Runner\<close>

definition executor_calls :: "world \<Rightarrow> event list" where
  "executor_calls w = filter is_executor_call (trace w)"

definition pushes :: "world \<Rightarrow> event list" where
  "pushes w = filter is_push (trace w)"

definition notifications :: "world \<Rightarrow> event list" where
  "notifications w = filter is_notify (trace w)"

text \<open>
  The metrics \<^verbatim>\<open>pushMetrics\<close> builds from a result when the clock reads \<open>now\<close>: the
  host, the service up, and the operation results that are present, cloud upload first.
\<close>

definition cycle_metrics :: "Runner \<Rightarrow> RunResult \<Rightarrow> int \<Rightarrow> Metrics" where
  "cycle_metrics r result now =
     \<lparr>Timestamp = now, Hostname = hostname r, ServiceUp = True, Version = [], GoVersion = [],
      Results = (case RunResult.CloudUpload result of None \<Rightarrow> [] | Some u \<Rightarrow> [u])
              @ (case RunResult.Backup result of None \<Rightarrow> [] | Some b \<Rightarrow> [b])\<rparr>"

text \<open>
  The events of a notification step on the result \<open>result\<close>: nothing without a notifier or
  when the \<^verbatim>\<open>switch\<close> chooses no notification, else one \<^verbatim>\<open>Notify\<close>.
\<close>

definition notification_step :: "Runner \<Rightarrow> (int \<Rightarrow> string) \<Rightarrow> RunResult \<Rightarrow> event list" where
  "notification_step r roundedText result =
     (case notifier r of
        None \<Rightarrow> []
      | Some n \<Rightarrow>
          (case snd (notification_switch r roundedText result) of
             None \<Rightarrow> []
           | Some x \<Rightarrow> [Notified x]))"

text \<open>
  What \<^verbatim>\<open>pushMetrics\<close> and \<^verbatim>\<open>sendNotifications\<close> return: the error of the collaborator
  when it is called, nil otherwise.
\<close>

definition push_error :: "Runner \<Rightarrow> RunResult \<Rightarrow> int \<Rightarrow> error option" where
  "push_error r result now =
     (case metricsPusher r of
        None \<Rightarrow> None
      | Some pusher \<Rightarrow> pusher (cycle_metrics r result now))"

definition notification_error :: "Runner \<Rightarrow> (int \<Rightarrow> string) \<Rightarrow> RunResult \<Rightarrow> error option" where
  "notification_error r roundedText result =
     (case notifier r of
        None \<Rightarrow> None
      | Some n \<Rightarrow>
          (case snd (notification_switch r roundedText result) of
             None \<Rightarrow> None
           | Some x \<Rightarrow> n x))"

text \<open>
  What \<^verbatim>\<open>runCloudUpload\<close> and \<^verbatim>\<open>runBackup\<close> make of a return of the Executor that
  is a result or an error: the result when there is no error, and the error wrapped.
\<close>

definition operation_result :: "BackupResult option \<times> error option \<Rightarrow> BackupResult option" where
  "operation_result ret = (case snd ret of None \<Rightarrow> fst ret | Some e \<Rightarrow> None)"

definition operation_error :: "string \<Rightarrow> BackupResult option \<times> error option \<Rightarrow> error option" where
  "operation_error prefix ret =
     (case snd ret of None \<Rightarrow> None | Some e \<Rightarrow> Some (Errorf prefix (Some e)))"

text \<open>A return of an Executor method that is a result or an error, not \<^verbatim>\<open>(nil, nil)\<close>.\<close>

definition result_or_error :: "BackupResult option \<times> error option \<Rightarrow> bool" where
  "result_or_error ret = (fst ret \<noteq> None \<or> snd ret \<noteq> None)"

text \<open>The result of a cycle that returned, \<open>None\<close> for one that panicked.\<close>

definition cycle_result ::
  "panic + ((RunResult option \<times> error option) \<times> world) \<Rightarrow> RunResult option" where
  "cycle_result ret = (case ret of Inl p \<Rightarrow> None | Inr ((result, err), w) \<Rightarrow> result)"

section \<open>Scenarios\<close>

text \<open>
  The retry policy and the servers of \<^verbatim>\<open>client_test.go\<close>: three attempts, 10 ms, 100 ms;
  a server answering every attempt with one status and an empty body; a transport that
  refuses every connection; a server whose answers have a status and a body that breaks
  off while it is read; a context never cancelled, and one cancelled during the wait
  after attempt \<open>k\<close>.
\<close>

definition test_RetryConfig :: RetryConfig where
  "test_RetryConfig = \<lparr>MaxAttempts = 3, InitialDelay = 10000000, MaxDelay = 100000000\<rparr>"

definition always_status :: "int \<Rightarrow> int \<Rightarrow> error + http_Response" where
  "always_status code =
     (\<lambda>attempt. Inr \<lparr>resp_StatusCode = code, resp_Header = Map.empty, resp_Body = Inr []\<rparr>)"

definition always_refused :: "int \<Rightarrow> error + http_Response" where
  "always_refused = (\<lambda>attempt. Inl (errorString ''connection refused''))"

definition always_unreadable :: "int \<Rightarrow> int \<Rightarrow> error + http_Response" where
  "always_unreadable code =
     (\<lambda>attempt. Inr \<lparr>resp_StatusCode = code, resp_Header = Map.empty,
                     resp_Body = Inl (errorString ''unexpected EOF'')\<rparr>)"

definition never_cancelled :: "int \<Rightarrow> error option" where
  "never_cancelled = (\<lambda>attempt. None)"

definition cancelled_after :: "int \<Rightarrow> error \<Rightarrow> int \<Rightarrow> error option" where
  "cancelled_after k e = (\<lambda>attempt. if attempt = k then Some e else None)"

definition get_request :: Request where
  "get_request = \<lparr>req_Method = ''GET'', req_URL = ''http://127.0.0.1:8080'', req_Body = None\<rparr>"

text \<open>A policy whose delays are one nanosecond past \<open>2^53\<close> (about 104 days).\<close>

definition long_RetryConfig :: RetryConfig where
  "long_RetryConfig = \<lparr>MaxAttempts = 3, InitialDelay = 2 ^ 53 + 1, MaxDelay = 2 ^ 53 + 1\<rparr>"

text \<open>
  The configuration and the mocks of the Runner's tests: a world whose clock advances one
  second at each reading (whole seconds below a minute print as \<^verbatim>\<open>5s\<close>), completed
  results as the mock executors build them, and executors whose cloud upload reports a
  failure in its result or returns an error.
\<close>

definition world0 :: world where
  "world0 =
     \<lparr>clock = (\<lambda>n. 1000000000 * int n),
      durationText = (\<lambda>d. decimal (d div 1000000000) @ ''s''),
      ticks = 0, trace = []\<rparr>"

definition testConfig :: "string \<Rightarrow> bool \<Rightarrow> Config" where
  "testConfig notify dryRun = \<lparr>Config.DryRun = dryRun, Apprise = \<lparr>Notify = notify\<rparr>\<rparr>"

definition succeeded :: "string \<Rightarrow> BackupResult" where
  "succeeded op =
     \<lparr>Operation = op, BackupResult.Success = True, BackupResult.StartTime = 0,
      BackupResult.EndTime = 1000000000, BackupResult.Duration = 1000000000,
      Stats = BackupStats_zero, Error = []\<rparr>"

definition failed :: "string \<Rightarrow> string \<Rightarrow> BackupResult" where
  "failed op msg = (succeeded op)\<lparr>BackupResult.Success := False, Error := msg\<rparr>"

definition mock_succeeds :: Executor where
  "mock_succeeds =
     \<lparr>Executor.Backup = (\<lambda>opts. (Some (succeeded OperationBackup), None)),
      Executor.CloudUpload = (\<lambda>opts. (Some (succeeded OperationCloudUpload), None))\<rparr>"

definition mock_upload_fails :: Executor where
  "mock_upload_fails =
     mock_succeeds\<lparr>Executor.CloudUpload :=
       (\<lambda>opts. (Some (failed OperationCloudUpload ''upload failed''), None))\<rparr>"

definition mock_upload_errors :: Executor where
  "mock_upload_errors =
     mock_succeeds\<lparr>Executor.CloudUpload := (\<lambda>opts. (None, Some (errorString ''boom'')))\<rparr>"

definition mock_not_to_be_called :: Executor where
  "mock_not_to_be_called =
     \<lparr>Executor.Backup = (\<lambda>opts. (None, Some (errorString ''should not be called''))),
      Executor.CloudUpload = (\<lambda>opts. (None, Some (errorString ''should not be called'')))\<rparr>"

definition mock_pusher :: MetricsPusher where
  "mock_pusher = (\<lambda>metrics. None)"

definition failing_pusher :: MetricsPusher where
  "failing_pusher = (\<lambda>metrics. Some (errorString ''push failed''))"

definition failing_notifier :: Notifier where
  "failing_notifier = (\<lambda>notification. Some (errorString ''notify failed''))"

definition testRunner :: "string \<Rightarrow> bool \<Rightarrow> Executor option \<Rightarrow> Runner" where
  "testRunner notify dryRun ex =
     NewRunner ''test-host'' (testConfig notify dryRun)
       [WithExecutor ex, WithMetricsPusher (Some failing_pusher),
        WithNotifier (Some failing_notifier)]"

chapter \<open>Theorems\<close>

section \<open>The float64 arithmetic is exact on the values of a sensible policy\<close>

lemma round53_exact: "a \<le> 2 ^ 53 \<Longrightarrow> round53 a = a"
proof (cases "a < 2 ^ 53")
  case True
  then show ?thesis by (simp add: round53_def)
next
  case False
  assume "a \<le> 2 ^ 53"
  with False have a: "a = 2 ^ 53" by simp
  show ?thesis unfolding a by (simp add: round53_def round_half_even_def Let_def)
qed

lemma float64_of_int64_exact: "\<bar>d\<bar> \<le> 2 ^ 53 \<Longrightarrow> float64_of_int64 d = Finite (of_int d)"
  by (simp add: float64_of_int64_def round53_exact mult_sgn_abs)

lemma toward_zero_of_int: "toward_zero (of_int x) = x"
  unfolding toward_zero_def by simp

lemma Pow2_nonneg: "0 \<le> k \<Longrightarrow> k < 1024 \<Longrightarrow> Pow2 k = Finite (of_int (2 ^ nat k))"
  by (simp add: Pow2_def power_int_def)

lemma Pow2_large: "1024 \<le> k \<Longrightarrow> Pow2 k = PosInf"
  by (simp add: Pow2_def)

lemma float64_mul_of_int:
  "float64_mul (Finite (of_int a)) (Finite (of_int b)) =
     (if 2 ^ 1024 \<le> \<bar>a * b\<bar> then (if 0 < a * b then PosInf else NegInf)
      else Finite (of_int (a * b)))"
proof -
  have e: "rat_of_int a * rat_of_int b = of_int (a * b)" by simp
  show ?thesis
    unfolding float64_mul.simps e
    by (simp only: of_int_abs [symmetric] numeral_power_le_of_int_cancel_iff of_int_0_less_iff)
qed

lemma Duration_of_float64_of_int:
  "- (2 ^ 63) \<le> x \<Longrightarrow> x < 2 ^ 63 \<Longrightarrow> Duration_of_float64 (Finite (of_int x)) = Nanoseconds x"
  by (simp add: toward_zero_of_int)

lemma clamp_step:
  assumes "D = (if B then PosInf else Finite (of_int X))"
  shows "(let delay = D in if float64_gt delay (Finite (of_int M)) then Nanoseconds M
            else Duration_of_float64 delay) =
         (if B \<or> M < X then Nanoseconds M else Duration_of_float64 (Finite (of_int X)))"
  unfolding assms Let_def by (simp del: Duration_of_float64.simps)

lemma calculateDelay_min:
  assumes n: "1 \<le> n"
    and I0: "0 \<le> InitialDelay c" and I53: "InitialDelay c \<le> 2 ^ 53"
    and M53: "\<bar>MaxDelay c\<bar> \<le> 2 ^ 53"
    and z: "InitialDelay c = 0 \<longrightarrow> n \<le> 1024"
  shows "calculateDelay c n = Nanoseconds (min (MaxDelay c) (InitialDelay c * 2 ^ nat (n - 1)))"
proof -
  let ?I = "InitialDelay c" and ?M = "MaxDelay c" and ?k = "nat (n - 1)"
  define X where "X = ?I * 2 ^ ?k"
  have fI: "float64_of_int64 ?I = Finite (of_int ?I)"
    using I0 I53 by (intro float64_of_int64_exact) simp
  have fM: "float64_of_int64 ?M = Finite (of_int ?M)"
    using M53 by (rule float64_of_int64_exact)
  have M_le: "?M \<le> 2 ^ 53" using M53 by simp
  have nonneg: "0 \<le> X" using I0 by (simp add: X_def)
  show ?thesis
  proof (cases "1024 \<le> n - 1")
    case True
    with z I0 have Ipos: "1 \<le> ?I" by (cases "?I = 0") auto
    have "(2::int) ^ 53 \<le> 2 ^ ?k" using True by (intro power_increasing) auto
    also have "\<dots> \<le> X" using Ipos by (simp add: X_def mult_le_cancel_right1)
    finally have "?M \<le> X" using M_le by simp
    then have "min ?M X = ?M" by simp
    moreover have "calculateDelay c n = Nanoseconds ?M"
      using Ipos by (simp add: calculateDelay_def fI fM Pow2_large [OF True])
    ultimately show ?thesis by (simp add: X_def)
  next
    case False
    then have P: "Pow2 (n - 1) = Finite (of_int (2 ^ ?k))"
      using n by (intro Pow2_nonneg) auto
    have delay: "float64_mul (float64_of_int64 ?I) (Pow2 (n - 1)) =
        (if 2 ^ 1024 \<le> X then PosInf else Finite (of_int X))"
      unfolding fI P float64_mul_of_int X_def [symmetric] using nonneg by auto
    have cd: "calculateDelay c n =
        (if 2 ^ 1024 \<le> X \<or> ?M < X then Nanoseconds ?M
         else Duration_of_float64 (Finite (of_int X)))"
      unfolding calculateDelay_def fM by (rule clamp_step [OF delay])
    have "(2::int) ^ 53 < 2 ^ 1024" by simp
    with M_le have M_small: "?M < 2 ^ 1024" by linarith
    show ?thesis
    proof (cases "?M < X")
      case True
      then have "min ?M X = ?M" by simp
      with cd True show ?thesis by (simp add: X_def)
    next
      case False
      then have le: "X \<le> ?M" by simp
      then have m: "min ?M X = X" by simp
      have "(2::int) ^ 53 < 2 ^ 63" by simp
      with le M_le have lt63: "X < 2 ^ 63" by linarith
      from le M_small have nb: "\<not> 2 ^ 1024 \<le> X" by linarith
      have "- (2 ^ 63) \<le> (0::int)" by simp
      with nonneg have ge63: "- (2 ^ 63) \<le> X" by linarith
      have "calculateDelay c n = Nanoseconds X"
        unfolding cd using nb False Duration_of_float64_of_int [OF ge63 lt63] by simp
      with m show ?thesis by (simp add: X_def)
    qed
  qed
qed

section \<open>The retry loop\<close>

declare attempts.simps [simp del]

lemma Do_readable:
  "readable_request req \<Longrightarrow> Do c t ctx req = attempts c t ctx 1 None [] []"
  by (auto simp: Do_def readable_request_def split: option.splits sum.splits)

lemma attempts_past_end:
  "MaxAttempts c < a \<Longrightarrow>
   attempts c t ctx a lastErr calls waits =
     \<lparr>do_response = None,
      do_error =
        Some (Errorf (''request failed after '' @ decimal (MaxAttempts c) @ '' attempts: '')
                lastErr),
      do_calls = calls, do_waits = waits\<rparr>"
  by (subst attempts.simps) simp

lemma attempts_at_last:
  assumes "a = MaxAttempts c"
  shows "attempts c t ctx a lastErr calls waits =
     \<lparr>do_response = fst (last_result c (t a)), do_error = snd (last_result c (t a)),
      do_calls = calls @ [a], do_waits = waits\<rparr>"
  unfolding assms
  by (subst attempts.simps)
     (simp add: last_result_def exhausted_def attempts_past_end split: sum.splits)

lemma attempts_final:
  assumes "a \<le> MaxAttempts c" and "t a = Inr resp" and "resp_Body resp = Inr body"
    and "\<not> shouldRetry (resp_StatusCode resp)"
  shows "attempts c t ctx a lastErr calls waits =
     \<lparr>do_response =
        Some \<lparr>StatusCode = resp_StatusCode resp, Response.Body = body,
              Headers = resp_Header resp\<rparr>,
      do_error = None, do_calls = calls @ [a], do_waits = waits\<rparr>"
  using assms by (subst attempts.simps) simp

lemma attempts_retry:
  assumes "a < MaxAttempts c" and "retryable_outcome (t a)" and "ctx a = None"
  shows "attempts c t ctx a lastErr calls waits =
           attempts c t ctx (a + 1) (Some (retry_error (t a))) (calls @ [a])
             (waits @ retry_waits c a (t a))"
  using assms
  by (subst attempts.simps)
     (auto simp: retryable_outcome_def select_follows_def retry_error_def retry_waits_def
        Let_def split: sum.splits)

lemma attempts_select_cancelled:
  assumes "a < MaxAttempts c" and "select_follows (t a)" and "ctx a = Some e"
  shows "attempts c t ctx a lastErr calls waits =
     \<lparr>do_response = None, do_error = Some e, do_calls = calls @ [a],
      do_waits = waits @ [calculateDelay c a]\<rparr>"
  using assms
  by (subst attempts.simps) (auto simp: select_follows_def Let_def split: sum.splits)

lemma attempts_exhausted:
  assumes "\<forall>j. a \<le> j \<and> j \<le> MaxAttempts c \<longrightarrow> retryable_outcome (t j)"
    and "\<forall>j. a \<le> j \<and> j < MaxAttempts c \<longrightarrow> ctx j = None"
    and "a \<le> MaxAttempts c" and "n = nat (MaxAttempts c - a)"
  shows "attempts c t ctx a lastErr calls waits =
     \<lparr>do_response = fst (last_result c (t (MaxAttempts c))),
      do_error = snd (last_result c (t (MaxAttempts c))),
      do_calls = calls @ [a..MaxAttempts c],
      do_waits = waits @ concat (map (\<lambda>j. retry_waits c j (t j)) [a..MaxAttempts c - 1])\<rparr>"
  using assms
proof (induction n arbitrary: a lastErr calls waits)
  case 0
  then have a: "a = MaxAttempts c" by simp
  show ?case unfolding attempts_at_last [OF a] by (simp add: a)
next
  case (Suc n)
  then have lt: "a < MaxAttempts c" by simp
  from Suc.prems lt have r: "retryable_outcome (t a)" and cn: "ctx a = None" by auto
  note step = attempts_retry [of a c t ctx lastErr calls waits, OF lt r cn]
  have u1: "[a..MaxAttempts c] = a # [a + 1..MaxAttempts c]"
    using lt by (simp add: upto_rec1)
  have u2: "[a..MaxAttempts c - 1] = a # [a + 1..MaxAttempts c - 1]"
    using lt by (simp add: upto_rec1)
  have "attempts c t ctx (a + 1) (Some (retry_error (t a))) (calls @ [a])
             (waits @ retry_waits c a (t a)) =
     \<lparr>do_response = fst (last_result c (t (MaxAttempts c))),
      do_error = snd (last_result c (t (MaxAttempts c))),
      do_calls = (calls @ [a]) @ [a + 1..MaxAttempts c],
      do_waits = (waits @ retry_waits c a (t a)) @
         concat (map (\<lambda>j. retry_waits c j (t j)) [a + 1..MaxAttempts c - 1])\<rparr>"
    using Suc.prems lt by (intro Suc.IH) auto
  then show ?case unfolding step u1 u2 by simp
qed

lemma attempts_cancelled:
  assumes "\<forall>j. a \<le> j \<and> j < k \<longrightarrow> retryable_outcome (t j) \<and> ctx j = None"
    and "a \<le> k" and "k < MaxAttempts c" and "select_follows (t k)" and "ctx k = Some e"
    and "n = nat (k - a)"
  shows "attempts c t ctx a lastErr calls waits =
     \<lparr>do_response = None, do_error = Some e, do_calls = calls @ [a..k],
      do_waits = waits @ concat (map (\<lambda>j. retry_waits c j (t j)) [a..k])\<rparr>"
  using assms
proof (induction n arbitrary: a lastErr calls waits)
  case 0
  then have a: "a = k" by simp
  from 0 have "attempts c t ctx k lastErr calls waits =
     \<lparr>do_response = None, do_error = Some e, do_calls = calls @ [k],
      do_waits = waits @ [calculateDelay c k]\<rparr>"
    by (intro attempts_select_cancelled) auto
  with 0 show ?case by (simp add: a retry_waits_def)
next
  case (Suc n)
  then have lt: "a < k" by simp
  with Suc.prems have ltM: "a < MaxAttempts c" by simp
  from Suc.prems lt have r: "retryable_outcome (t a)" and cn: "ctx a = None" by auto
  note step = attempts_retry [of a c t ctx lastErr calls waits, OF ltM r cn]
  have u: "[a..k] = a # [a + 1..k]" using lt by (simp add: upto_rec1)
  have "attempts c t ctx (a + 1) (Some (retry_error (t a))) (calls @ [a])
             (waits @ retry_waits c a (t a)) =
     \<lparr>do_response = None, do_error = Some e, do_calls = (calls @ [a]) @ [a + 1..k],
      do_waits = (waits @ retry_waits c a (t a)) @
         concat (map (\<lambda>j. retry_waits c j (t j)) [a + 1..k])\<rparr>"
    using Suc.prems lt by (intro Suc.IH) auto
  then show ?case unfolding step u by simp
qed

lemma shouldRetry_iff: "shouldRetry s = (s \<in> {429, 500, 502, 503, 504})"
  by (auto simp: shouldRetry_def StatusTooManyRequests_def StatusInternalServerError_def
      StatusBadGateway_def StatusServiceUnavailable_def StatusGatewayTimeout_def)

lemma calls_waits_step:
  assumes "\<exists>cs. do_calls R = (calls @ [a]) @ cs \<and> set cs \<subseteq> {a + 1..M}
             \<and> do_waits R = (waits @ ws) @ map f (filter p cs)"
    and "a \<le> M" and "ws = (if p a then [f a] else [])"
  shows "\<exists>cs. do_calls R = calls @ cs \<and> set cs \<subseteq> {a..M}
           \<and> do_waits R = waits @ map f (filter p cs)"
proof -
  from assms(1) obtain cs where cs: "do_calls R = (calls @ [a]) @ cs" "set cs \<subseteq> {a + 1..M}"
    "do_waits R = (waits @ ws) @ map f (filter p cs)" by blast
  show ?thesis
  proof (intro exI [of _ "a # cs"] conjI)
    show "do_calls R = calls @ a # cs" using cs(1) by simp
    show "set (a # cs) \<subseteq> {a..M}" using cs(2) assms(2) by auto
    show "do_waits R = waits @ map f (filter p (a # cs))" using cs(3) assms(3) by simp
  qed
qed

text \<open>
  Whatever the transport and the context do, the loop calls the transport on attempts
  between the current one and \<open>MaxAttempts\<close>, and the delays it waits are those of
  \<^verbatim>\<open>calculateDelay\<close> at the attempts followed by a \<^verbatim>\<open>select\<close>, in order.
\<close>

lemma attempts_calls_waits:
  "\<exists>cs. do_calls (attempts c t ctx a l calls waits) = calls @ cs
      \<and> set cs \<subseteq> {a..MaxAttempts c}
      \<and> do_waits (attempts c t ctx a l calls waits) =
          waits @ map (calculateDelay c) (filter (waited_after c t) cs)"
proof (induction "nat (MaxAttempts c + 1 - a)" arbitrary: a l calls waits rule: less_induct)
  case less
  consider (past) "MaxAttempts c < a" | (last) "a = MaxAttempts c"
    | (cancelled) "a < MaxAttempts c" "select_follows (t a)" "ctx a \<noteq> None"
    | (final) "a < MaxAttempts c" "\<not> retryable_outcome (t a)"
    | (retry) "a < MaxAttempts c" "retryable_outcome (t a)"
        "select_follows (t a) \<longrightarrow> ctx a = None"
    by fastforce
  then show ?case
  proof cases
    case past
    then show ?thesis by (simp add: attempts_past_end)
  next
    case last
    have "\<not> waited_after c t a" using last by (simp add: waited_after_def)
    then show ?thesis
      unfolding attempts_at_last [OF last] using last by (intro exI [of _ "[a]"]) simp
  next
    case cancelled
    then obtain e where e: "ctx a = Some e" by auto
    have "waited_after c t a" using cancelled by (simp add: waited_after_def)
    then show ?thesis
      unfolding attempts_select_cancelled [of a c t ctx e l calls waits, OF cancelled(1,2) e]
      using cancelled(1) by (intro exI [of _ "[a]"]) simp
  next
    case final
    then obtain resp body where r: "t a = Inr resp" "resp_Body resp = Inr body"
      "\<not> shouldRetry (resp_StatusCode resp)"
      by (auto simp: retryable_outcome_def split: sum.splits)
    have le: "a \<le> MaxAttempts c" using final(1) by simp
    have "\<not> waited_after c t a" using r by (simp add: waited_after_def select_follows_def)
    then show ?thesis
      unfolding attempts_final [of a c t resp body ctx l calls waits, OF le r]
      using le by (intro exI [of _ "[a]"]) simp
  next
    case retry
    have le: "a \<le> MaxAttempts c" using retry(1) by simp
    define ws where "ws = (if waited_after c t a then [calculateDelay c a] else [])"
    have eq: "attempts c t ctx a l calls waits =
        attempts c t ctx (a + 1) (Some (retry_error (t a))) (calls @ [a]) (waits @ ws)"
      using retry unfolding ws_def
      by (subst attempts.simps)
         (auto simp: retryable_outcome_def select_follows_def retry_error_def
            waited_after_def Let_def split: sum.splits)
    have "nat (MaxAttempts c + 1 - (a + 1)) < nat (MaxAttempts c + 1 - a)"
      using retry(1) by simp
    then have ih: "\<exists>cs. do_calls (attempts c t ctx (a + 1) (Some (retry_error (t a)))
                        (calls @ [a]) (waits @ ws)) = (calls @ [a]) @ cs
        \<and> set cs \<subseteq> {a + 1..MaxAttempts c}
        \<and> do_waits (attempts c t ctx (a + 1) (Some (retry_error (t a)))
                        (calls @ [a]) (waits @ ws)) =
            (waits @ ws) @ map (calculateDelay c) (filter (waited_after c t) cs)"
      by (rule less)
    show ?thesis unfolding eq by (rule calls_waits_step [OF ih le ws_def])
  qed
qed

lemma Do_calls_waits:
  "set (do_calls (Do c t ctx req)) \<subseteq> {1..MaxAttempts c}
   \<and> do_waits (Do c t ctx req) =
       map (calculateDelay c) (filter (waited_after c t) (do_calls (Do c t ctx req)))"
proof (cases "readable_request req")
  case True
  from attempts_calls_waits [of c t ctx 1 None "[]" "[]"] show ?thesis
    unfolding Do_readable [OF True] by auto
next
  case False
  then show ?thesis
    by (auto simp: Do_def readable_request_def split: option.splits sum.splits)
qed

text \<open>
  C3 (as amended). For a policy whose delays are not negative and at most \<open>2^53\<close>
  nanoseconds (the integers a \<^verbatim>\<open>float64\<close> holds exactly), in every run of \<^verbatim>\<open>Do\<close> the
  delays waited are, in order, \<open>min MaxDelay (InitialDelay * 2^(n-1))\<close> for the attempts
  \<open>n\<close> it made that were followed by a \<^verbatim>\<open>select\<close>: those before the last permitted one
  that failed at the transport or got a retryable status with a body that could be read.
  After an attempt whose body could not be read, and after the last attempt, \<^verbatim>\<open>Do\<close> does
  not wait. \<^verbatim>\<open>calculateDelay\<close> itself returns that minimum at every \<open>n \<ge> 1\<close>. For a zero
  \<open>InitialDelay\<close> this holds as long as \<open>n \<le> 1024\<close>, that is, in \<^verbatim>\<open>Do\<close>, for
  \<open>MaxAttempts \<le> 1025\<close>: beyond, \<^verbatim>\<open>math.Pow\<close> is \<open>+Inf\<close> and the product NaN. With one
  second and ten seconds the delays after attempts 1 to 5 are 1, 2, 4, 8 and 10 seconds.
\<close>

theorem calculateDelay_backoff:
  assumes "0 \<le> InitialDelay c" and "InitialDelay c \<le> 2 ^ 53"
    and "\<bar>MaxDelay c\<bar> \<le> 2 ^ 53"
    and "InitialDelay c = 0 \<longrightarrow> MaxAttempts c \<le> 1025"
  shows "do_waits (Do c t ctx req) =
           map (\<lambda>n. Nanoseconds (min (MaxDelay c) (InitialDelay c * 2 ^ nat (n - 1))))
             (filter (waited_after c t) (do_calls (Do c t ctx req)))
       \<and> (\<forall>n. 1 \<le> n \<and> (InitialDelay c = 0 \<longrightarrow> n \<le> 1024) \<longrightarrow>
             calculateDelay c n =
               Nanoseconds (min (MaxDelay c) (InitialDelay c * 2 ^ nat (n - 1))))
       \<and> map (calculateDelay (c\<lparr>InitialDelay := 1000000000, MaxDelay := 10000000000\<rparr>))
             [1, 2, 3, 4, 5] =
           map Nanoseconds [1000000000, 2000000000, 4000000000, 8000000000, 10000000000]"
proof (intro conjI allI impI)
  fix n :: int
  assume n: "1 \<le> n \<and> (InitialDelay c = 0 \<longrightarrow> n \<le> 1024)"
  with assms(1-3) show "calculateDelay c n =
      Nanoseconds (min (MaxDelay c) (InitialDelay c * 2 ^ nat (n - 1)))"
    by (intro calculateDelay_min) auto
next
  show "map (calculateDelay (c\<lparr>InitialDelay := 1000000000, MaxDelay := 10000000000\<rparr>))
          [1, 2, 3, 4, 5] =
        map Nanoseconds [1000000000, 2000000000, 4000000000, 8000000000, 10000000000]"
    by (simp add: calculateDelay_min)
next
  let ?D = "Do c t ctx req"
  from Do_calls_waits [of c t ctx req]
  have s: "set (do_calls ?D) \<subseteq> {1..MaxAttempts c}"
    and w: "do_waits ?D = map (calculateDelay c) (filter (waited_after c t) (do_calls ?D))"
    by blast+
  have "calculateDelay c n = Nanoseconds (min (MaxDelay c) (InitialDelay c * 2 ^ nat (n - 1)))"
    if "n \<in> set (filter (waited_after c t) (do_calls ?D))" for n
  proof -
    from that s have "1 \<le> n" and "n < MaxAttempts c" by (auto simp: waited_after_def)
    with assms show ?thesis by (intro calculateDelay_min) auto
  qed
  then show "do_waits ?D =
      map (\<lambda>n. Nanoseconds (min (MaxDelay c) (InitialDelay c * 2 ^ nat (n - 1))))
        (filter (waited_after c t) (do_calls ?D))"
    unfolding w by (intro map_cong refl)
qed

theorem calculateDelay_backoff_witness:
  "0 \<le> InitialDelay test_RetryConfig \<and> InitialDelay test_RetryConfig \<le> 2 ^ 53
   \<and> \<bar>MaxDelay test_RetryConfig\<bar> \<le> 2 ^ 53 \<and> InitialDelay test_RetryConfig \<noteq> 0
   \<and> do_waits (Do test_RetryConfig (always_status 503) never_cancelled get_request) =
       [Nanoseconds 10000000, Nanoseconds 20000000]
   \<and> calculateDelay test_RetryConfig 5 = Nanoseconds 100000000"
proof -
  have c: "do_calls (Do test_RetryConfig (always_status 503) never_cancelled get_request) =
      [1, 2, 3]"
    by (simp add: Do_def get_request_def test_RetryConfig_def always_status_def
        never_cancelled_def shouldRetry_iff attempts.simps)
  have f: "filter (waited_after test_RetryConfig (always_status 503)) [1, 2, 3] = [1, 2]"
    by (simp add: waited_after_def select_follows_def test_RetryConfig_def always_status_def
        shouldRetry_iff)
  have h: "0 \<le> InitialDelay test_RetryConfig" "InitialDelay test_RetryConfig \<le> 2 ^ 53"
    "\<bar>MaxDelay test_RetryConfig\<bar> \<le> 2 ^ 53"
    "InitialDelay test_RetryConfig = 0 \<longrightarrow> MaxAttempts test_RetryConfig \<le> 1025"
    by (simp_all add: test_RetryConfig_def)
  have z: "InitialDelay test_RetryConfig \<noteq> 0" by (simp add: test_RetryConfig_def)
  from calculateDelay_backoff [OF h, of "always_status 503" never_cancelled get_request]
  have "do_waits (Do test_RetryConfig (always_status 503) never_cancelled get_request) =
          [Nanoseconds (min (MaxDelay test_RetryConfig)
                          (InitialDelay test_RetryConfig * 2 ^ nat (1 - 1))),
           Nanoseconds (min (MaxDelay test_RetryConfig)
                          (InitialDelay test_RetryConfig * 2 ^ nat (2 - 1)))]"
    and "calculateDelay test_RetryConfig 5 =
           Nanoseconds (min (MaxDelay test_RetryConfig)
                          (InitialDelay test_RetryConfig * 2 ^ nat (5 - 1)))"
    unfolding c f using z by simp_all
  then show ?thesis using h z by (simp add: test_RetryConfig_def)
qed

text \<open>
  The claim as stated, for every policy, fails where \<^verbatim>\<open>float64\<close> rounds: an
  \<open>InitialDelay\<close> of \<open>2^53 + 1\<close> nanoseconds becomes \<open>2^53\<close>, and that is what \<^verbatim>\<open>Do\<close>
  waits after a first attempt that the transport refused.
\<close>

theorem calculateDelay_rounds_counterexample:
  "calculateDelay long_RetryConfig 1 = Nanoseconds (2 ^ 53)
   \<and> calculateDelay long_RetryConfig 1 \<noteq>
       Nanoseconds (min (MaxDelay long_RetryConfig)
                      (InitialDelay long_RetryConfig * 2 ^ nat (1 - 1)))
   \<and> waited_after long_RetryConfig always_refused 1
   \<and> do_waits (Do long_RetryConfig always_refused never_cancelled get_request) =
       [Nanoseconds (2 ^ 53), Nanoseconds (2 ^ 53 + 1)]"
proof -
  have d1: "calculateDelay long_RetryConfig 1 = Nanoseconds (2 ^ 53)"
    by (simp add: long_RetryConfig_def calculateDelay_def float64_of_int64_def round53_def
      round_half_even_def Pow2_def toward_zero_def Let_def)
  have d2: "calculateDelay long_RetryConfig 2 = Nanoseconds (2 ^ 53 + 1)"
    by (simp add: long_RetryConfig_def calculateDelay_def float64_of_int64_def round53_def
      round_half_even_def Pow2_def toward_zero_def Let_def)
  have m: "MaxAttempts long_RetryConfig = 3" by (simp add: long_RetryConfig_def)
  have w: "do_waits (Do long_RetryConfig always_refused never_cancelled get_request) =
      [calculateDelay long_RetryConfig 1, calculateDelay long_RetryConfig 2]"
    by (simp add: Do_def get_request_def m always_refused_def never_cancelled_def
        attempts.simps)
  show ?thesis
    unfolding w d1 d2
    by (simp add: waited_after_def select_follows_def always_refused_def long_RetryConfig_def)
qed

text \<open>
  C1 (as amended). With \<open>MaxAttempts = N \<ge> 1\<close>, a target whose outcome is retryable on
  all \<open>N\<close> attempts and no wait cut short by the context, \<^verbatim>\<open>Do\<close> calls the target on the
  attempts \<open>1, \<dots>, N\<close>, once each. If the last attempt produced a response, \<^verbatim>\<open>Do\<close> returns
  that response and a nil error; if the last attempt failed, at the transport (in
  particular when every attempt did) or in reading the body of the response, it returns no
  response and the error \<^verbatim>\<open>request failed after N attempts\<close> wrapping the last error.
\<close>

theorem Do_attempts_exhausted:
  assumes "1 \<le> MaxAttempts c" and "readable_request req"
    and "\<forall>j. 1 \<le> j \<and> j \<le> MaxAttempts c \<longrightarrow> retryable_outcome (t j)"
    and "\<forall>j. 1 \<le> j \<and> j < MaxAttempts c \<longrightarrow> ctx j = None"
  shows "do_calls (Do c t ctx req) = [1..MaxAttempts c]
       \<and> length (do_calls (Do c t ctx req)) = nat (MaxAttempts c)
       \<and> (case t (MaxAttempts c) of
             Inl err \<Rightarrow>
               do_response (Do c t ctx req) = None
               \<and> do_error (Do c t ctx req) =
                   Some (Errorf (''request failed after '' @ decimal (MaxAttempts c)
                                   @ '' attempts: '') (Some err))
           | Inr resp \<Rightarrow>
               (case resp_Body resp of
                  Inl err \<Rightarrow>
                    do_response (Do c t ctx req) = None
                    \<and> do_error (Do c t ctx req) =
                        Some (Errorf (''request failed after '' @ decimal (MaxAttempts c)
                                        @ '' attempts: '')
                                (Some (Errorf ''failed to read response body: '' (Some err))))
                | Inr body \<Rightarrow>
                    do_response (Do c t ctx req) =
                      Some \<lparr>StatusCode = resp_StatusCode resp, Response.Body = body,
                            Headers = resp_Header resp\<rparr>
                    \<and> do_error (Do c t ctx req) = None))"
proof -
  have "Do c t ctx req =
     \<lparr>do_response = fst (last_result c (t (MaxAttempts c))),
      do_error = snd (last_result c (t (MaxAttempts c))),
      do_calls = [] @ [1..MaxAttempts c],
      do_waits = [] @ concat (map (\<lambda>j. retry_waits c j (t j)) [1..MaxAttempts c - 1])\<rparr>"
    unfolding Do_readable [OF assms(2)]
    using assms(1,3,4) by (intro attempts_exhausted) auto
  then show ?thesis
    by (simp add: last_result_def exhausted_def split: sum.splits)
qed

theorem Do_attempts_exhausted_witness:
  "1 \<le> MaxAttempts test_RetryConfig \<and> readable_request get_request
   \<and> retryable_outcome (always_refused 1) \<and> retryable_outcome (always_refused 2)
   \<and> retryable_outcome (always_refused 3)
   \<and> do_calls (Do test_RetryConfig always_refused never_cancelled get_request) = [1, 2, 3]
   \<and> do_response (Do test_RetryConfig always_refused never_cancelled get_request) = None
   \<and> do_error (Do test_RetryConfig always_refused never_cancelled get_request) =
       Some (Errorf ''request failed after 3 attempts: ''
               (Some (errorString ''connection refused'')))"
proof -
  have h1: "1 \<le> MaxAttempts test_RetryConfig" by (simp add: test_RetryConfig_def)
  have h2: "readable_request get_request" by (simp add: readable_request_def get_request_def)
  have h3: "\<forall>j. 1 \<le> j \<and> j \<le> MaxAttempts test_RetryConfig \<longrightarrow> retryable_outcome (always_refused j)"
    by (simp add: retryable_outcome_def always_refused_def)
  have h4: "\<forall>j. 1 \<le> j \<and> j < MaxAttempts test_RetryConfig \<longrightarrow> never_cancelled j = None"
    by (simp add: never_cancelled_def)
  have d: "decimal 3 = ''3''" by code_simp
  have u: "[1..3::int] = [1, 2, 3]" by (simp add: upto_rec1)
  from Do_attempts_exhausted [OF h1 h2 h3 h4] h1 h2 show ?thesis
    by (simp add: test_RetryConfig_def always_refused_def retryable_outcome_def d u)
qed

text \<open>
  The claim as stated fails where the last attempt produced a response: the test
  \<^verbatim>\<open>TestClient_Retry_Exhausted\<close> (three attempts, a server that always answers 503) gets
  the 503 response back with a nil error, not with an error describing exhaustion.
\<close>

theorem Do_exhausted_nil_error_counterexample:
  "retryable_outcome (always_status 503 1) \<and> retryable_outcome (always_status 503 2)
   \<and> retryable_outcome (always_status 503 3)
   \<and> do_calls (Do test_RetryConfig (always_status 503) never_cancelled get_request) = [1, 2, 3]
   \<and> do_response (Do test_RetryConfig (always_status 503) never_cancelled get_request) =
       Some \<lparr>StatusCode = 503, Response.Body = [], Headers = Map.empty\<rparr>
   \<and> do_error (Do test_RetryConfig (always_status 503) never_cancelled get_request) = None"
  by (simp add: Do_def get_request_def test_RetryConfig_def always_status_def
      never_cancelled_def retryable_outcome_def shouldRetry_iff attempts.simps)

text \<open>
  C4 (as amended). Whatever the policy (\<open>MaxAttempts \<ge> 1\<close>), when the first attempt gets a
  response whose body can be read and whose status is none of 429, 500, 502, 503, 504,
  \<^verbatim>\<open>Do\<close> calls the target once, waits for nothing and returns that response with a nil
  error; and \<^verbatim>\<open>shouldRetry\<close> holds of exactly these five statuses.
\<close>

theorem Do_non_retryable_status:
  assumes "1 \<le> MaxAttempts c" and "readable_request req"
    and "t 1 = Inr resp" and "resp_Body resp = Inr body"
    and "resp_StatusCode resp \<notin> {429, 500, 502, 503, 504}"
  shows "Do c t ctx req =
           \<lparr>do_response =
              Some \<lparr>StatusCode = resp_StatusCode resp, Response.Body = body,
                    Headers = resp_Header resp\<rparr>,
            do_error = None, do_calls = [1], do_waits = []\<rparr>
       \<and> (\<forall>s. shouldRetry s = (s \<in> {429, 500, 502, 503, 504}))"
proof -
  from assms(5) have "\<not> shouldRetry (resp_StatusCode resp)" by (simp add: shouldRetry_iff)
  with assms(1,3,4) have "attempts c t ctx 1 None [] [] =
     \<lparr>do_response =
        Some \<lparr>StatusCode = resp_StatusCode resp, Response.Body = body,
              Headers = resp_Header resp\<rparr>,
      do_error = None, do_calls = [] @ [1], do_waits = []\<rparr>"
    by (intro attempts_final) auto
  then show ?thesis by (simp add: Do_readable [OF assms(2)] shouldRetry_iff)
qed

theorem Do_non_retryable_status_witness:
  "1 \<le> MaxAttempts test_RetryConfig \<and> readable_request get_request
   \<and> (400::int) \<notin> {429, 500, 502, 503, 504}
   \<and> Do test_RetryConfig (always_status 400) never_cancelled get_request =
       \<lparr>do_response = Some \<lparr>StatusCode = 400, Response.Body = [], Headers = Map.empty\<rparr>,
        do_error = None, do_calls = [1], do_waits = []\<rparr>"
proof -
  have h1: "1 \<le> MaxAttempts test_RetryConfig" by (simp add: test_RetryConfig_def)
  have h2: "readable_request get_request" by (simp add: readable_request_def get_request_def)
  let ?resp = "\<lparr>resp_StatusCode = 400, resp_Header = Map.empty, resp_Body = Inr []\<rparr>"
  have h3: "always_status 400 1 = Inr ?resp" by (simp add: always_status_def)
  have h4: "resp_Body ?resp = Inr []" by simp
  have h5: "resp_StatusCode ?resp \<notin> {429, 500, 502, 503, 504}" by simp
  from Do_non_retryable_status [where c = test_RetryConfig and req = get_request
      and t = "always_status 400" and resp = ?resp and body = "[]" and ctx = never_cancelled,
      OF h1 h2 h3 h4 h5] h1 h2
  show ?thesis by simp
qed

text \<open>
  The claim as stated, for every response, fails on one whose body cannot be read: the
  reading comes before the test of the status, and its failure is retried whatever the
  status. A server that answers 200 and breaks off the body each time is called on all
  three attempts, with no wait between them, and \<^verbatim>\<open>Do\<close> returns no response.
\<close>

theorem Do_unreadable_body_counterexample:
  "(200::int) \<notin> {429, 500, 502, 503, 504}
   \<and> Do test_RetryConfig (always_unreadable 200) never_cancelled get_request =
       \<lparr>do_response = None,
        do_error =
          Some (Errorf ''request failed after 3 attempts: ''
                  (Some (Errorf ''failed to read response body: ''
                           (Some (errorString ''unexpected EOF''))))),
        do_calls = [1, 2, 3], do_waits = []\<rparr>"
proof -
  have d: "decimal 3 = ''3''" by code_simp
  show ?thesis
    by (simp add: Do_def get_request_def test_RetryConfig_def always_unreadable_def
        attempts.simps d)
qed

text \<open>
  C5. When the context is cancelled during the wait that follows attempt \<open>k\<close> (the
  \<^verbatim>\<open>select\<close> takes \<^verbatim>\<open><-ctx.Done()\<close> before the timer fires), \<^verbatim>\<open>Do\<close> returns at
  once: no response, the context's error itself (not the error of exhausted retries), and no
  attempt after \<open>k\<close>.
\<close>

theorem Do_cancelled_during_wait:
  assumes "readable_request req"
    and "1 \<le> k" and "k < MaxAttempts c"
    and "\<forall>j. 1 \<le> j \<and> j < k \<longrightarrow> retryable_outcome (t j) \<and> ctx j = None"
    and "select_follows (t k)" and "ctx k = Some e"
  shows "do_response (Do c t ctx req) = None
       \<and> do_error (Do c t ctx req) = Some e
       \<and> do_calls (Do c t ctx req) = [1..k]
       \<and> last (do_waits (Do c t ctx req)) = calculateDelay c k"
proof -
  have "Do c t ctx req =
     \<lparr>do_response = None, do_error = Some e, do_calls = [] @ [1..k],
      do_waits = [] @ concat (map (\<lambda>j. retry_waits c j (t j)) [1..k])\<rparr>"
    unfolding Do_readable [OF assms(1)]
    using assms(2-6) by (intro attempts_cancelled) auto
  moreover have "[1..k] = [1..k - 1] @ [k]"
    using assms(2) by (simp add: upto_rec2)
  ultimately show ?thesis
    using assms(5) by (simp add: retry_waits_def)
qed

theorem Do_cancelled_during_wait_witness:
  "readable_request get_request \<and> (1::int) \<le> 2 \<and> 2 < MaxAttempts test_RetryConfig
   \<and> select_follows (always_status 503 2)
   \<and> cancelled_after 2 DeadlineExceeded 2 = Some DeadlineExceeded
   \<and> do_response (Do test_RetryConfig (always_status 503) (cancelled_after 2 DeadlineExceeded)
                     get_request) = None
   \<and> do_error (Do test_RetryConfig (always_status 503) (cancelled_after 2 DeadlineExceeded)
                  get_request) = Some DeadlineExceeded
   \<and> do_calls (Do test_RetryConfig (always_status 503) (cancelled_after 2 DeadlineExceeded)
                  get_request) = [1, 2]"
proof -
  have h1: "readable_request get_request" by (simp add: readable_request_def get_request_def)
  have h3: "2 < MaxAttempts test_RetryConfig" by (simp add: test_RetryConfig_def)
  have h4: "\<forall>j. 1 \<le> j \<and> j < 2 \<longrightarrow>
      retryable_outcome (always_status 503 j) \<and> cancelled_after 2 DeadlineExceeded j = None"
    by (simp add: retryable_outcome_def always_status_def shouldRetry_iff cancelled_after_def)
  have h5: "select_follows (always_status 503 2)"
    by (simp add: select_follows_def always_status_def shouldRetry_iff)
  have h6: "cancelled_after 2 DeadlineExceeded 2 = Some DeadlineExceeded"
    by (simp add: cancelled_after_def)
  have u: "[1..2::int] = [1, 2]" by (simp add: upto_rec1)
  have h2: "(1::int) \<le> 2" by simp
  from Do_cancelled_during_wait [where c = test_RetryConfig and req = get_request
      and t = "always_status 503" and ctx = "cancelled_after 2 DeadlineExceeded" and k = 2
      and e = DeadlineExceeded, OF h1 h2 h3 h4 h5 h6] h1 h3 h5 h6
  show ?thesis by (simp add: u)
qed

section \<open>The Runner\<close>

lemma emit_simps:
  "trace (emit e w) = trace w @ [e]" "ticks (emit e w) = ticks w"
  "clock (emit e w) = clock w" "durationText (emit e w) = durationText w"
  by (simp_all add: emit_def)

lemma filter_emit:
  "executor_calls (emit e w) = executor_calls w @ (if is_executor_call e then [e] else [])"
  "pushes (emit e w) = pushes w @ (if is_push e then [e] else [])"
  "notifications (emit e w) = notifications w @ (if is_notify e then [e] else [])"
  by (simp_all add: emit_def executor_calls_def pushes_def notifications_def)

lemma filter_ticks:
  "executor_calls (w\<lparr>ticks := n\<rparr>) = executor_calls w"
  "pushes (w\<lparr>ticks := n\<rparr>) = pushes w"
  "notifications (w\<lparr>ticks := n\<rparr>) = notifications w"
  by (simp_all add: executor_calls_def pushes_def notifications_def)

lemma NewRunResult_eq:
  "NewRunResult dryRun w =
     (\<lparr>RunResult.StartTime = clock w (ticks w), RunResult.EndTime = 0, RunResult.Duration = 0,
       RunResult.Success = False, DryRun = dryRun, Backup = None, CloudUpload = None,
       Errors = []\<rparr>, w\<lparr>ticks := Suc (ticks w)\<rparr>)"
  by (simp add: NewRunResult_def time_Now_def)

lemma RunResult_Complete_fields:
  "RunResult.Success (fst (RunResult_Complete result w)) =
     ((case RunResult.CloudUpload result of Some u \<Rightarrow> BackupResult.Success u | None \<Rightarrow> True)
      \<and> (case RunResult.Backup result of Some b \<Rightarrow> BackupResult.Success b | None \<Rightarrow> True))"
  "RunResult.CloudUpload (fst (RunResult_Complete result w)) = RunResult.CloudUpload result"
  "RunResult.Backup (fst (RunResult_Complete result w)) = RunResult.Backup result"
  "RunResult.Errors (fst (RunResult_Complete result w)) = RunResult.Errors result"
  "RunResult.DryRun (fst (RunResult_Complete result w)) = RunResult.DryRun result"
  "snd (RunResult_Complete result w) = w\<lparr>ticks := Suc (ticks w)\<rparr>"
  by (simp_all add: RunResult_Complete_def time_Now_def Let_def split: option.splits)

lemma AddError_fields:
  "RunResult.Success (AddError result err) = RunResult.Success result"
  "RunResult.CloudUpload (AddError result err) = RunResult.CloudUpload result"
  "RunResult.Backup (AddError result err) = RunResult.Backup result"
  "RunResult.DryRun (AddError result err) = RunResult.DryRun result"
  "RunResult.Errors (AddError result err) =
     RunResult.Errors result @ (case err of None \<Rightarrow> [] | Some e \<Rightarrow> [error_Error e])"
  by (simp_all add: AddError_def split: option.splits)

text \<open>The metrics a push carries: the host, the service up, the results present.\<close>

lemma pushMetrics_eq:
  "pushMetrics r result w =
     (case metricsPusher r of
        None \<Rightarrow> (None, w)
      | Some pusher \<Rightarrow>
          (let m = \<lparr>Timestamp = clock w (ticks w), Hostname = hostname r, ServiceUp = True,
                    Version = [], GoVersion = [],
                    Results = (case RunResult.CloudUpload result of None \<Rightarrow> [] | Some u \<Rightarrow> [u])
                            @ (case RunResult.Backup result of None \<Rightarrow> [] | Some b \<Rightarrow> [b])\<rparr>
           in (pusher m, emit (Pushed m) (w\<lparr>ticks := Suc (ticks w)\<rparr>))))"
  by (simp add: pushMetrics_def NewMetrics_def AddResult_def time_Now_def Let_def
      split: option.splits)

lemma sendNotifications_eq:
  "sendNotifications r result w =
     (case notifier r of
        None \<Rightarrow> (None, w)
      | Some n \<Rightarrow>
          (case snd (notification_switch r (durationText w) result) of
             None \<Rightarrow> (None, w)
           | Some x \<Rightarrow> (n x, emit (Notified x) w)))"
  by (simp add: sendNotifications_def notification_switch_def Let_def split: option.splits)

lemma pushMetrics_cases:
  "pushMetrics r result w =
     (case metricsPusher r of
        None \<Rightarrow> (None, w)
      | Some pusher \<Rightarrow>
          (pusher (cycle_metrics r result (clock w (ticks w))),
           emit (Pushed (cycle_metrics r result (clock w (ticks w))))
             (w\<lparr>ticks := Suc (ticks w)\<rparr>)))"
  by (simp add: pushMetrics_eq cycle_metrics_def Let_def split: option.splits)

lemma sendNotifications_trace:
  "trace (snd (sendNotifications r result w)) = trace w @ notification_step r (durationText w) result"
  "ticks (snd (sendNotifications r result w)) = ticks w"
  "clock (snd (sendNotifications r result w)) = clock w"
  "durationText (snd (sendNotifications r result w)) = durationText w"
  by (simp_all add: sendNotifications_eq notification_step_def emit_simps split: option.splits)

lemma cycle_metrics_Complete:
  "cycle_metrics r (fst (RunResult_Complete result w)) now = cycle_metrics r result now"
  by (simp add: cycle_metrics_def RunResult_Complete_fields)

lemma sendNotifications_error:
  "fst (sendNotifications r result w) = notification_error r (durationText w) result"
  by (simp add: sendNotifications_eq notification_error_def split: option.splits)

text \<open>
  The second half of a cycle always returns: the result is the completed one with the
  error of the push, if any, added; the world has the events of the push and of the
  notification step, which runs on that final result whatever the push returned; an
  error of the notifier is logged and goes no further.
\<close>

lemma completeAndReport_returns:
  "\<exists>res w'. completeAndReport r result w = ((Some res, None), w')
     \<and> res = AddError (fst (RunResult_Complete result w))
               (push_error r result (clock w (Suc (ticks w))))
     \<and> durationText w' = durationText w
     \<and> executor_calls w' = executor_calls w
     \<and> pushes w' = pushes w @
          (case metricsPusher r of
             None \<Rightarrow> []
           | Some pusher \<Rightarrow> [Pushed (cycle_metrics r result (clock w (Suc (ticks w))))])
     \<and> notifications w' = notifications w @ notification_step r (durationText w) res
     \<and> (notification_error r (durationText w) res \<noteq> None \<longrightarrow>
          Logged LevelError ''failed to send notification'' \<in> set (trace w'))"
proof -
  obtain result1 w1 where c: "RunResult_Complete result w = (result1, w1)"
    by (cases "RunResult_Complete result w")
  have w1: "w1 = w\<lparr>ticks := Suc (ticks w)\<rparr>"
    using RunResult_Complete_fields(6) [of result w] by (simp add: c)
  have r1: "result1 = fst (RunResult_Complete result w)" by (simp add: c)
  obtain err w2 where p: "pushMetrics r result1 w1 = (err, w2)"
    by (cases "pushMetrics r result1 w1")
  have err: "err = push_error r result (clock w (Suc (ticks w)))"
    and w2: "durationText w2 = durationText w" "executor_calls w2 = executor_calls w"
      "notifications w2 = notifications w"
      "pushes w2 = pushes w @
          (case metricsPusher r of
             None \<Rightarrow> []
           | Some pusher \<Rightarrow> [Pushed (cycle_metrics r result (clock w (Suc (ticks w))))])"
    using p
    by (auto simp: pushMetrics_cases push_error_def w1 r1 cycle_metrics_Complete emit_simps
        filter_emit filter_ticks split: option.splits)
  define result2 where "result2 = AddError result1 err"
  define w3 where "w3 = (case err of
       Some e \<Rightarrow> emit (Logged LevelError ''failed to push metrics'') w2 | None \<Rightarrow> w2)"
  have a: "(case err of
               Some e \<Rightarrow>
                 (AddError result1 (Some e), emit (Logged LevelError ''failed to push metrics'') w2)
             | None \<Rightarrow> (result1, w2)) = (result2, w3)"
    by (simp add: result2_def w3_def AddError_def split: option.splits)
  have w3: "durationText w3 = durationText w" "executor_calls w3 = executor_calls w"
      "notifications w3 = notifications w" "pushes w3 = pushes w2"
    by (simp_all add: w3_def w2 emit_simps filter_emit split: option.splits)
  obtain nerr w4 where n: "sendNotifications r result2 w3 = (nerr, w4)"
    by (cases "sendNotifications r result2 w3")
  have nerr: "nerr = notification_error r (durationText w) result2"
    using sendNotifications_error [of r result2 w3] by (simp add: n w3)
  have t4: "trace w4 = trace w3 @ notification_step r (durationText w) result2"
    and d4: "durationText w4 = durationText w"
    using sendNotifications_trace(1,4) [of r result2 w3] by (simp_all add: n w3)
  have ns: "\<forall>e \<in> set (notification_step r (durationText w) result2).
      is_notify e \<and> \<not> is_push e \<and> \<not> is_executor_call e"
    by (auto simp: notification_step_def split: option.splits)
  have w4: "executor_calls w4 = executor_calls w" "pushes w4 = pushes w2"
      "notifications w4 = notifications w @ notification_step r (durationText w) result2"
    using ns w3
    by (simp_all add: executor_calls_def pushes_def notifications_def t4 filter_id_conv
        filter_empty_conv)
  define w5 where "w5 = (case nerr of
        Some e \<Rightarrow> emit (Logged LevelError ''failed to send notification'') w4 | None \<Rightarrow> w4)"
  have w5: "durationText w5 = durationText w" "executor_calls w5 = executor_calls w"
      "pushes w5 = pushes w2"
      "notifications w5 = notifications w @ notification_step r (durationText w) result2"
    by (simp_all add: w5_def w4 d4 emit_simps filter_emit split: option.splits)
  have l5: "nerr \<noteq> None \<longrightarrow> Logged LevelError ''failed to send notification'' \<in> set (trace w5)"
    by (auto simp: w5_def emit_simps)
  have "completeAndReport r result w =
      ((Some result2, None), emit (Logged LevelInfo ''backup run completed'') w5)"
    by (simp add: completeAndReport_def c p a n w5_def)
  then show ?thesis
    using l5 by (simp add: result2_def r1 err nerr w5 w2 emit_simps filter_emit)
qed

lemma dry_operation:
  "BackupResult_Complete (fst (NewBackupResult op w)) True None (snd (NewBackupResult op w)) =
     (\<lparr>Operation = op, BackupResult.Success = True, BackupResult.StartTime = clock w (ticks w),
       BackupResult.EndTime = clock w (Suc (ticks w)),
       BackupResult.Duration = Time_Sub (clock w (Suc (ticks w))) (clock w (ticks w)),
       Stats = BackupStats_zero, Error = []\<rparr>,
      w\<lparr>ticks := Suc (Suc (ticks w))\<rparr>)"
  by (simp add: NewBackupResult_def BackupResult_Complete_def time_Now_def)

lemma runCloudUpload_dry:
  assumes "Config.DryRun (config r)"
  shows "\<exists>u w'. runCloudUpload r w = Inr ((Some u, None), w')
      \<and> Operation u = OperationCloudUpload \<and> BackupResult.Success u
      \<and> Stats u = BackupStats_zero \<and> Error u = []
      \<and> durationText w' = durationText w \<and> executor_calls w' = executor_calls w
      \<and> pushes w' = pushes w \<and> notifications w' = notifications w"
  using assms
  by (simp add: runCloudUpload_def Let_def split_def dry_operation emit_simps filter_emit
      filter_ticks)

lemma runBackup_dry:
  assumes "Config.DryRun (config r)"
  shows "\<exists>b w'. runBackup r w = Inr ((Some b, None), w')
      \<and> Operation b = OperationBackup \<and> BackupResult.Success b
      \<and> Stats b = BackupStats_zero \<and> Error b = []
      \<and> durationText w' = durationText w \<and> executor_calls w' = executor_calls w
      \<and> pushes w' = pushes w \<and> notifications w' = notifications w"
  using assms
  by (simp add: runBackup_def Let_def split_def dry_operation emit_simps filter_emit
      filter_ticks)

lemma runCloudUpload_live:
  assumes "\<not> Config.DryRun (config r)" and "executor r = Some ex"
    and "Executor.CloudUpload ex \<lparr>UploadOptions.Force = True\<rparr> = ret" and "result_or_error ret"
  shows "\<exists>w'. runCloudUpload r w =
          Inr ((operation_result ret, operation_error ''cloud upload error: '' ret), w')
      \<and> durationText w' = durationText w
      \<and> executor_calls w' = executor_calls w @ [ExecutorCloudUpload True]
      \<and> pushes w' = pushes w \<and> notifications w' = notifications w"
proof (cases ret)
  case (Pair res err)
  with assms show ?thesis
    by (cases res; cases err)
       (simp_all add: runCloudUpload_def Let_def operation_result_def operation_error_def
          result_or_error_def emit_simps filter_emit)
qed

lemma runBackup_live:
  assumes "\<not> Config.DryRun (config r)" and "executor r = Some ex"
    and "Executor.Backup ex \<lparr>BackupOptions.Force = True\<rparr> = ret" and "result_or_error ret"
  shows "\<exists>w'. runBackup r w =
          Inr ((operation_result ret, operation_error ''backup error: '' ret), w')
      \<and> durationText w' = durationText w
      \<and> executor_calls w' = executor_calls w @ [ExecutorBackup True]
      \<and> pushes w' = pushes w \<and> notifications w' = notifications w"
proof (cases ret)
  case (Pair res err)
  with assms show ?thesis
    by (cases res; cases err)
       (simp_all add: runBackup_def Let_def operation_result_def operation_error_def
          result_or_error_def emit_simps filter_emit)
qed

lemma log_if_error:
  "(case err of
      Some e \<Rightarrow> (AddError result (Some e), emit ev w)
    | None \<Rightarrow> (result, w)) =
   (AddError result err, case err of Some e \<Rightarrow> emit ev w | None \<Rightarrow> w)"
  by (simp add: AddError_def split: option.splits)

lemma log_if_error_world:
  "durationText (case err of Some e \<Rightarrow> emit (Logged l m) w | None \<Rightarrow> w) = durationText w"
  "executor_calls (case err of Some e \<Rightarrow> emit (Logged l m) w | None \<Rightarrow> w) = executor_calls w"
  "pushes (case err of Some e \<Rightarrow> emit (Logged l m) w | None \<Rightarrow> w) = pushes w"
  "notifications (case err of Some e \<Rightarrow> emit (Logged l m) w | None \<Rightarrow> w) = notifications w"
  by (simp_all add: emit_simps filter_emit split: option.splits)

lemma runOperations_dry:
  assumes "Config.DryRun (config r)"
  shows "\<exists>u b w'. runOperations r result w =
            Inr (result\<lparr>RunResult.CloudUpload := Some u, RunResult.Backup := Some b\<rparr>, w')
      \<and> Operation u = OperationCloudUpload \<and> BackupResult.Success u
      \<and> Stats u = BackupStats_zero \<and> Error u = []
      \<and> Operation b = OperationBackup \<and> BackupResult.Success b
      \<and> Stats b = BackupStats_zero \<and> Error b = []
      \<and> durationText w' = durationText w \<and> executor_calls w' = executor_calls w
      \<and> pushes w' = pushes w \<and> notifications w' = notifications w"
proof -
  from runCloudUpload_dry [OF assms, of w] obtain u w1 where
    u: "runCloudUpload r w = Inr ((Some u, None), w1)"
      "Operation u = OperationCloudUpload" "BackupResult.Success u"
      "Stats u = BackupStats_zero" "Error u = []"
      "durationText w1 = durationText w" "executor_calls w1 = executor_calls w"
      "pushes w1 = pushes w" "notifications w1 = notifications w"
    by blast
  from runBackup_dry [OF assms, of w1] obtain b w2 where
    b: "runBackup r w1 = Inr ((Some b, None), w2)"
      "Operation b = OperationBackup" "BackupResult.Success b"
      "Stats b = BackupStats_zero" "Error b = []"
      "durationText w2 = durationText w1" "executor_calls w2 = executor_calls w1"
      "pushes w2 = pushes w1" "notifications w2 = notifications w1"
    by blast
  have "runOperations r result w =
      Inr (result\<lparr>RunResult.CloudUpload := Some u, RunResult.Backup := Some b\<rparr>, w2)"
    by (simp add: runOperations_def u(1) b(1))
  with u b show ?thesis by (intro exI [of _ u] exI [of _ b] exI [of _ w2]) simp
qed

lemma runOperations_live:
  assumes "\<not> Config.DryRun (config r)" and "executor r = Some ex"
    and "Executor.CloudUpload ex \<lparr>UploadOptions.Force = True\<rparr> = up" and "result_or_error up"
    and "Executor.Backup ex \<lparr>BackupOptions.Force = True\<rparr> = bk" and "result_or_error bk"
  shows "\<exists>w'. runOperations r result w =
            Inr ((AddError
                   ((AddError result (operation_error ''cloud upload error: '' up))
                      \<lparr>RunResult.CloudUpload := operation_result up\<rparr>)
                   (operation_error ''backup error: '' bk))
                   \<lparr>RunResult.Backup := operation_result bk\<rparr>, w')
      \<and> durationText w' = durationText w
      \<and> executor_calls w' = executor_calls w @ [ExecutorCloudUpload True, ExecutorBackup True]
      \<and> pushes w' = pushes w \<and> notifications w' = notifications w"
proof -
  from runCloudUpload_live [OF assms(1-4), of w] obtain w1 where
    u: "runCloudUpload r w =
          Inr ((operation_result up, operation_error ''cloud upload error: '' up), w1)"
      "durationText w1 = durationText w"
      "executor_calls w1 = executor_calls w @ [ExecutorCloudUpload True]"
      "pushes w1 = pushes w" "notifications w1 = notifications w"
    by blast
  define w2 where "w2 = (case operation_error ''cloud upload error: '' up of
      Some e \<Rightarrow> emit (Logged LevelError ''cloud upload failed'') w1 | None \<Rightarrow> w1)"
  have w2: "durationText w2 = durationText w"
      "executor_calls w2 = executor_calls w @ [ExecutorCloudUpload True]"
      "pushes w2 = pushes w" "notifications w2 = notifications w"
    by (simp_all add: w2_def log_if_error_world u)
  from runBackup_live [OF assms(1,2,5,6), of w2] obtain w3 where
    b: "runBackup r w2 =
          Inr ((operation_result bk, operation_error ''backup error: '' bk), w3)"
      "durationText w3 = durationText w2"
      "executor_calls w3 = executor_calls w2 @ [ExecutorBackup True]"
      "pushes w3 = pushes w2" "notifications w3 = notifications w2"
    by blast
  define w4 where "w4 = (case operation_error ''backup error: '' bk of
      Some e \<Rightarrow> emit (Logged LevelError ''backup failed'') w3 | None \<Rightarrow> w3)"
  have w4: "durationText w4 = durationText w"
      "executor_calls w4 = executor_calls w @ [ExecutorCloudUpload True, ExecutorBackup True]"
      "pushes w4 = pushes w" "notifications w4 = notifications w"
    by (simp_all add: w4_def log_if_error_world b w2)
  have "runOperations r result w =
            Inr ((AddError
                   ((AddError result (operation_error ''cloud upload error: '' up))
                      \<lparr>RunResult.CloudUpload := operation_result up\<rparr>)
                   (operation_error ''backup error: '' bk))
                   \<lparr>RunResult.Backup := operation_result bk\<rparr>, w4)"
    by (simp add: runOperations_def u(1) log_if_error w2_def [symmetric] b(1) w4_def [symmetric])
  with w4 show ?thesis by simp
qed

text \<open>
  \<^verbatim>\<open>Run\<close> in two halves: from the fresh result and the world after the first log line,
  the operations (when there is an executor), then the completion and the reports.
\<close>

lemma Run_eq:
  "Run r w =
     (case (case executor r of
              Some ex \<Rightarrow>
                runOperations r (fst (NewRunResult (Config.DryRun (config r)) w))
                  (emit (Logged LevelInfo ''starting backup run'')
                     (snd (NewRunResult (Config.DryRun (config r)) w)))
            | None \<Rightarrow>
                Inr (fst (NewRunResult (Config.DryRun (config r)) w),
                     emit (Logged LevelInfo ''starting backup run'')
                       (snd (NewRunResult (Config.DryRun (config r)) w)))) of
        Inl p \<Rightarrow> Inl p
      | Inr (result, w3) \<Rightarrow> Inr (completeAndReport r result w3))"
  by (simp add: Run_def split_def Let_def)

lemma started_world:
  "durationText (emit (Logged LevelInfo ''starting backup run'') (snd (NewRunResult d w))) =
     durationText w"
  "executor_calls (emit (Logged LevelInfo ''starting backup run'') (snd (NewRunResult d w))) =
     executor_calls w"
  "pushes (emit (Logged LevelInfo ''starting backup run'') (snd (NewRunResult d w))) = pushes w"
  "notifications (emit (Logged LevelInfo ''starting backup run'') (snd (NewRunResult d w))) =
     notifications w"
  by (simp_all add: NewRunResult_eq emit_simps filter_emit filter_ticks)

lemma NewRunResult_fields:
  "RunResult.CloudUpload (fst (NewRunResult d w)) = None"
  "RunResult.Backup (fst (NewRunResult d w)) = None"
  "RunResult.Errors (fst (NewRunResult d w)) = []"
  "RunResult.DryRun (fst (NewRunResult d w)) = d"
  by (simp_all add: NewRunResult_eq)

lemma Run_after_operations:
  assumes "(case executor r of
              Some ex \<Rightarrow>
                runOperations r (fst (NewRunResult (Config.DryRun (config r)) w))
                  (emit (Logged LevelInfo ''starting backup run'')
                     (snd (NewRunResult (Config.DryRun (config r)) w)))
            | None \<Rightarrow>
                Inr (fst (NewRunResult (Config.DryRun (config r)) w),
                     emit (Logged LevelInfo ''starting backup run'')
                       (snd (NewRunResult (Config.DryRun (config r)) w)))) = Inr (result, w3)"
    and "durationText w3 = durationText w" and "executor_calls w3 = executor_calls w @ calls"
    and "pushes w3 = pushes w" and "notifications w3 = notifications w"
  shows "\<exists>res w' now. Run r w = Inr ((Some res, None), w')
     \<and> res = AddError (fst (RunResult_Complete result w3)) (push_error r result now)
     \<and> executor_calls w' = executor_calls w @ calls
     \<and> pushes w' = pushes w @
          (case metricsPusher r of
             None \<Rightarrow> []
           | Some pusher \<Rightarrow> [Pushed (cycle_metrics r result now)])
     \<and> notifications w' = notifications w @ notification_step r (durationText w) res
     \<and> (notification_error r (durationText w) res \<noteq> None \<longrightarrow>
          Logged LevelError ''failed to send notification'' \<in> set (trace w'))"
proof -
  from completeAndReport_returns [of r result w3] obtain res w' where
    "completeAndReport r result w3 = ((Some res, None), w')"
    "res = AddError (fst (RunResult_Complete result w3))
               (push_error r result (clock w3 (Suc (ticks w3))))"
    "executor_calls w' = executor_calls w3"
    "pushes w' = pushes w3 @
          (case metricsPusher r of
             None \<Rightarrow> []
           | Some pusher \<Rightarrow> [Pushed (cycle_metrics r result (clock w3 (Suc (ticks w3))))])"
    "notifications w' = notifications w3 @ notification_step r (durationText w3) res"
    "notification_error r (durationText w3) res \<noteq> None \<longrightarrow>
          Logged LevelError ''failed to send notification'' \<in> set (trace w')"
    by blast
  moreover have "Run r w = Inr (completeAndReport r result w3)"
    by (simp add: Run_eq assms(1))
  ultimately show ?thesis
    using assms(2-5)
    by (intro exI [of _ res] exI [of _ w'] exI [of _ "clock w3 (Suc (ticks w3))"]) simp
qed

text \<open>
  Whenever a cycle returns, its \<open>Success\<close> is the conjunction of the successes of the
  operation results it holds: the list of errors has no part in it.
\<close>

lemma Run_Success:
  assumes "Run r w = Inr ((Some res, err), w')"
  shows "RunResult.Success res =
     ((case RunResult.CloudUpload res of Some u \<Rightarrow> BackupResult.Success u | None \<Rightarrow> True)
      \<and> (case RunResult.Backup res of Some b \<Rightarrow> BackupResult.Success b | None \<Rightarrow> True))"
proof -
  from assms obtain result w3 where "completeAndReport r result w3 = ((Some res, err), w')"
    unfolding Run_eq by (auto split: sum.splits)
  with completeAndReport_returns [of r result w3]
  have "res = AddError (fst (RunResult_Complete result w3))
               (push_error r result (clock w3 (Suc (ticks w3))))"
    by auto
  then show ?thesis
    by (simp add: AddError_fields RunResult_Complete_fields)
qed

lemma cycle_metrics_final:
  "cycle_metrics r (AddError (fst (RunResult_Complete result w)) err) now =
     cycle_metrics r result now"
  by (simp add: cycle_metrics_def AddError_fields RunResult_Complete_fields)

lemma push_error_final:
  "push_error r (AddError (fst (RunResult_Complete result w)) err) now = push_error r result now"
  by (simp add: push_error_def cycle_metrics_final split: option.splits)

lemma testRunner_fields:
  "executor (testRunner notify dryRun ex) = ex"
  "metricsPusher (testRunner notify dryRun ex) = Some failing_pusher"
  "notifier (testRunner notify dryRun ex) = Some failing_notifier"
  "Config.DryRun (config (testRunner notify dryRun ex)) = dryRun"
  "Notify (Apprise (config (testRunner notify dryRun ex))) = notify"
  "hostname (testRunner notify dryRun ex) = ''test-host''"
  by (simp_all add: testRunner_def NewRunner_def WithExecutor_def WithMetricsPusher_def
      WithNotifier_def testConfig_def)

text \<open>
  C6. In a dry run with an executor configured, \<^verbatim>\<open>Run\<close> calls no method of the
  Executor; the result it returns has \<open>Success\<close> true and holds a cloud-upload result and
  a backup result, each of its own kind, successful, with zero statistics and no error
  text.
\<close>

theorem Run_dry_run:
  assumes "Config.DryRun (config r)" and "executor r = Some ex"
  shows "\<exists>res w' u b. Run r w = Inr ((Some res, None), w')
      \<and> executor_calls w' = executor_calls w
      \<and> RunResult.Success res \<and> RunResult.DryRun res
      \<and> RunResult.CloudUpload res = Some u \<and> Operation u = OperationCloudUpload
      \<and> BackupResult.Success u \<and> Stats u = BackupStats_zero \<and> Error u = []
      \<and> RunResult.Backup res = Some b \<and> Operation b = OperationBackup
      \<and> BackupResult.Success b \<and> Stats b = BackupStats_zero \<and> Error b = []"
proof -
  let ?R0 = "fst (NewRunResult (Config.DryRun (config r)) w)"
  let ?W0 = "emit (Logged LevelInfo ''starting backup run'')
               (snd (NewRunResult (Config.DryRun (config r)) w))"
  from runOperations_dry [OF assms(1), of ?R0 ?W0] obtain u b w3 where
    ops: "runOperations r ?R0 ?W0 =
            Inr (?R0\<lparr>RunResult.CloudUpload := Some u, RunResult.Backup := Some b\<rparr>, w3)"
    and u: "Operation u = OperationCloudUpload" "BackupResult.Success u"
      "Stats u = BackupStats_zero" "Error u = []"
    and b: "Operation b = OperationBackup" "BackupResult.Success b"
      "Stats b = BackupStats_zero" "Error b = []"
    and w3: "durationText w3 = durationText ?W0" "executor_calls w3 = executor_calls ?W0"
      "pushes w3 = pushes ?W0" "notifications w3 = notifications ?W0"
    by blast
  let ?result = "?R0\<lparr>RunResult.CloudUpload := Some u, RunResult.Backup := Some b\<rparr>"
  have "\<exists>res w' now. Run r w = Inr ((Some res, None), w')
     \<and> res = AddError (fst (RunResult_Complete ?result w3)) (push_error r ?result now)
     \<and> executor_calls w' = executor_calls w @ []
     \<and> pushes w' = pushes w @
          (case metricsPusher r of
             None \<Rightarrow> []
           | Some pusher \<Rightarrow> [Pushed (cycle_metrics r ?result now)])
     \<and> notifications w' = notifications w @ notification_step r (durationText w) res
     \<and> (notification_error r (durationText w) res \<noteq> None \<longrightarrow>
          Logged LevelError ''failed to send notification'' \<in> set (trace w'))"
    by (rule Run_after_operations) (simp_all add: assms(2) ops w3 started_world)
  then obtain res w' now where
    run: "Run r w = Inr ((Some res, None), w')"
    and res: "res = AddError (fst (RunResult_Complete ?result w3)) (push_error r ?result now)"
    and calls: "executor_calls w' = executor_calls w @ []"
    by blast
  from res u b assms(1) have
    "RunResult.Success res" "RunResult.DryRun res"
    "RunResult.CloudUpload res = Some u" "RunResult.Backup res = Some b"
    by (simp_all add: AddError_fields RunResult_Complete_fields NewRunResult_fields)
  with run calls u b show ?thesis by auto
qed

theorem Run_dry_run_witness:
  "Config.DryRun (config (testRunner NotifyError True (Some mock_not_to_be_called)))
   \<and> executor (testRunner NotifyError True (Some mock_not_to_be_called)) =
       Some mock_not_to_be_called
   \<and> (\<exists>res w' u b.
        Run (testRunner NotifyError True (Some mock_not_to_be_called)) world0 =
          Inr ((Some res, None), w')
        \<and> executor_calls w' = []
        \<and> RunResult.Success res
        \<and> RunResult.CloudUpload res = Some u \<and> Operation u = ''cloud_upload''
        \<and> BackupResult.Success u \<and> Stats u = BackupStats_zero
        \<and> RunResult.Backup res = Some b \<and> Operation b = ''backup''
        \<and> BackupResult.Success b \<and> Stats b = BackupStats_zero)"
proof -
  let ?r = "testRunner NotifyError True (Some mock_not_to_be_called)"
  have h1: "Config.DryRun (config ?r)" and h2: "executor ?r = Some mock_not_to_be_called"
    by (simp_all add: testRunner_fields)
  have e: "executor_calls world0 = []" by (simp add: executor_calls_def world0_def)
  from Run_dry_run [OF h1 h2, of world0] h1 h2 show ?thesis
    unfolding e OperationCloudUpload_def OperationBackup_def by blast
qed

text \<open>
  C10. A Runner without an executor, dry run off: \<^verbatim>\<open>Run\<close> attempts no operation. The
  result holds neither operation result, \<open>Success\<close> is true, the returned error is nil;
  the metrics step still runs (with a pusher, one push of the host's metrics with the
  service up and no results) and so does the notification step (with a notifier, the
  success notification when the level is \<open>always\<close>, nothing otherwise).
\<close>

theorem Run_without_executor:
  assumes "executor r = None" and "\<not> Config.DryRun (config r)"
  shows "\<exists>res w' now. Run r w = Inr ((Some res, None), w')
      \<and> RunResult.CloudUpload res = None \<and> RunResult.Backup res = None
      \<and> RunResult.Success res \<and> \<not> RunResult.DryRun res
      \<and> executor_calls w' = executor_calls w
      \<and> pushes w' = pushes w @
           (case metricsPusher r of
              None \<Rightarrow> []
            | Some pusher \<Rightarrow>
                [Pushed \<lparr>Timestamp = now, Hostname = hostname r, ServiceUp = True,
                         Version = [], GoVersion = [], Results = []\<rparr>])
      \<and> notifications w' = notifications w @
           (case notifier r of
              None \<Rightarrow> []
            | Some n \<Rightarrow>
                if Notify (Apprise (config r)) = NotifyAlways
                then [Notified (InfoNotification ''Ludusavi Backup Completed''
                                  (buildSuccessMessage r (durationText w) res))]
                else [])"
proof -
  let ?R0 = "fst (NewRunResult (Config.DryRun (config r)) w)"
  let ?W0 = "emit (Logged LevelInfo ''starting backup run'')
               (snd (NewRunResult (Config.DryRun (config r)) w))"
  have "\<exists>res w' now. Run r w = Inr ((Some res, None), w')
     \<and> res = AddError (fst (RunResult_Complete ?R0 ?W0)) (push_error r ?R0 now)
     \<and> executor_calls w' = executor_calls w @ []
     \<and> pushes w' = pushes w @
          (case metricsPusher r of
             None \<Rightarrow> []
           | Some pusher \<Rightarrow> [Pushed (cycle_metrics r ?R0 now)])
     \<and> notifications w' = notifications w @ notification_step r (durationText w) res
     \<and> (notification_error r (durationText w) res \<noteq> None \<longrightarrow>
          Logged LevelError ''failed to send notification'' \<in> set (trace w'))"
    by (rule Run_after_operations) (simp_all add: assms(1) started_world)
  then obtain res w' now where
    run: "Run r w = Inr ((Some res, None), w')"
    and res: "res = AddError (fst (RunResult_Complete ?R0 ?W0)) (push_error r ?R0 now)"
    and calls: "executor_calls w' = executor_calls w @ []"
    and p: "pushes w' = pushes w @
          (case metricsPusher r of
             None \<Rightarrow> []
           | Some pusher \<Rightarrow> [Pushed (cycle_metrics r ?R0 now)])"
    and n: "notifications w' = notifications w @ notification_step r (durationText w) res"
    by blast
  from res assms(2) have f:
    "RunResult.CloudUpload res = None" "RunResult.Backup res = None"
    "RunResult.Success res" "\<not> RunResult.DryRun res"
    by (simp_all add: AddError_fields RunResult_Complete_fields NewRunResult_fields)
  have m: "cycle_metrics r ?R0 now =
      \<lparr>Timestamp = now, Hostname = hostname r, ServiceUp = True,
       Version = [], GoVersion = [], Results = []\<rparr>"
    by (simp add: cycle_metrics_def NewRunResult_fields)
  have s: "notification_step r (durationText w) res =
           (case notifier r of
              None \<Rightarrow> []
            | Some n \<Rightarrow>
                if Notify (Apprise (config r)) = NotifyAlways
                then [Notified (InfoNotification ''Ludusavi Backup Completed''
                                  (buildSuccessMessage r (durationText w) res))]
                else [])"
    using f(3) by (simp add: notification_step_def notification_switch_def split: option.splits)
  from run f calls p n show ?thesis
    unfolding m s by (intro exI [of _ res] exI [of _ w'] exI [of _ now]) simp
qed

theorem Run_without_executor_witness:
  "executor (NewRunner ''test-host'' (testConfig NotifyError False)
               [WithMetricsPusher (Some mock_pusher)]) = None
   \<and> \<not> Config.DryRun (config (NewRunner ''test-host'' (testConfig NotifyError False)
               [WithMetricsPusher (Some mock_pusher)]))
   \<and> (\<exists>res w' now.
        Run (NewRunner ''test-host'' (testConfig NotifyError False)
               [WithMetricsPusher (Some mock_pusher)]) world0 = Inr ((Some res, None), w')
        \<and> RunResult.CloudUpload res = None \<and> RunResult.Backup res = None
        \<and> RunResult.Success res
        \<and> pushes w' =
             [Pushed \<lparr>Timestamp = now, Hostname = ''test-host'', ServiceUp = True,
                      Version = [], GoVersion = [], Results = []\<rparr>]
        \<and> notifications w' = [])"
proof -
  let ?r = "NewRunner ''test-host'' (testConfig NotifyError False)
               [WithMetricsPusher (Some mock_pusher)]"
  have f: "executor ?r = None" "\<not> Config.DryRun (config ?r)"
    "metricsPusher ?r = Some mock_pusher" "notifier ?r = Some NopNotifier"
    "hostname ?r = ''test-host''" "Notify (Apprise (config ?r)) = NotifyError"
    by (simp_all add: NewRunner_def WithMetricsPusher_def testConfig_def)
  have e: "pushes world0 = []" "notifications world0 = []"
    by (simp_all add: pushes_def notifications_def world0_def)
  have ne: "NotifyError \<noteq> NotifyAlways" by (simp add: NotifyError_def NotifyAlways_def)
  from Run_without_executor [OF f(1,2), of world0] f(1,2) show ?thesis
    unfolding f(3-6) e by (auto simp: ne)
qed

text \<open>
  What a live cycle returns when each call of the Executor returns a result or an error.
\<close>

lemma Run_live:
  assumes "\<not> Config.DryRun (config r)" and "executor r = Some ex"
    and "Executor.CloudUpload ex \<lparr>UploadOptions.Force = True\<rparr> = up" and "result_or_error up"
    and "Executor.Backup ex \<lparr>BackupOptions.Force = True\<rparr> = bk" and "result_or_error bk"
  shows "\<exists>res w' now. Run r w = Inr ((Some res, None), w')
     \<and> RunResult.CloudUpload res = operation_result up
     \<and> RunResult.Backup res = operation_result bk
     \<and> RunResult.Errors res =
          (case operation_error ''cloud upload error: '' up of None \<Rightarrow> [] | Some e \<Rightarrow> [error_Error e])
        @ (case operation_error ''backup error: '' bk of None \<Rightarrow> [] | Some e \<Rightarrow> [error_Error e])
        @ (case push_error r res now of None \<Rightarrow> [] | Some e \<Rightarrow> [error_Error e])
     \<and> executor_calls w' = executor_calls w @ [ExecutorCloudUpload True, ExecutorBackup True]
     \<and> pushes w' = pushes w @
          (case metricsPusher r of
             None \<Rightarrow> []
           | Some pusher \<Rightarrow> [Pushed (cycle_metrics r res now)])
     \<and> notifications w' = notifications w @ notification_step r (durationText w) res
     \<and> (notification_error r (durationText w) res \<noteq> None \<longrightarrow>
          Logged LevelError ''failed to send notification'' \<in> set (trace w'))"
proof -
  let ?R0 = "fst (NewRunResult (Config.DryRun (config r)) w)"
  let ?W0 = "emit (Logged LevelInfo ''starting backup run'')
               (snd (NewRunResult (Config.DryRun (config r)) w))"
  let ?result = "(AddError
                   ((AddError ?R0 (operation_error ''cloud upload error: '' up))
                      \<lparr>RunResult.CloudUpload := operation_result up\<rparr>)
                   (operation_error ''backup error: '' bk))
                   \<lparr>RunResult.Backup := operation_result bk\<rparr>"
  from runOperations_live [OF assms, of ?R0 ?W0] obtain w3 where
    ops: "runOperations r ?R0 ?W0 = Inr (?result, w3)"
    and w3: "durationText w3 = durationText ?W0"
      "executor_calls w3 = executor_calls ?W0 @ [ExecutorCloudUpload True, ExecutorBackup True]"
      "pushes w3 = pushes ?W0" "notifications w3 = notifications ?W0"
    by blast
  have "\<exists>res w' now. Run r w = Inr ((Some res, None), w')
     \<and> res = AddError (fst (RunResult_Complete ?result w3)) (push_error r ?result now)
     \<and> executor_calls w' = executor_calls w @ [ExecutorCloudUpload True, ExecutorBackup True]
     \<and> pushes w' = pushes w @
          (case metricsPusher r of
             None \<Rightarrow> []
           | Some pusher \<Rightarrow> [Pushed (cycle_metrics r ?result now)])
     \<and> notifications w' = notifications w @ notification_step r (durationText w) res
     \<and> (notification_error r (durationText w) res \<noteq> None \<longrightarrow>
          Logged LevelError ''failed to send notification'' \<in> set (trace w'))"
    by (rule Run_after_operations) (simp_all add: assms(2) ops w3 started_world)
  then obtain res w' now where
    run: "Run r w = Inr ((Some res, None), w')"
    and res: "res = AddError (fst (RunResult_Complete ?result w3)) (push_error r ?result now)"
    and rest: "executor_calls w' = executor_calls w @ [ExecutorCloudUpload True, ExecutorBackup True]"
      "pushes w' = pushes w @
          (case metricsPusher r of
             None \<Rightarrow> []
           | Some pusher \<Rightarrow> [Pushed (cycle_metrics r ?result now)])"
      "notifications w' = notifications w @ notification_step r (durationText w) res"
      "notification_error r (durationText w) res \<noteq> None \<longrightarrow>
          Logged LevelError ''failed to send notification'' \<in> set (trace w')"
    by blast
  have pe: "push_error r res now = push_error r ?result now"
    and cm: "cycle_metrics r res now = cycle_metrics r ?result now"
    unfolding res by (rule push_error_final, rule cycle_metrics_final)
  have f: "RunResult.CloudUpload res = operation_result up"
    "RunResult.Backup res = operation_result bk"
    "RunResult.Errors res =
          (case operation_error ''cloud upload error: '' up of None \<Rightarrow> [] | Some e \<Rightarrow> [error_Error e])
        @ (case operation_error ''backup error: '' bk of None \<Rightarrow> [] | Some e \<Rightarrow> [error_Error e])
        @ (case push_error r res now of None \<Rightarrow> [] | Some e \<Rightarrow> [error_Error e])"
    unfolding pe unfolding res
    by (simp_all add: AddError_fields RunResult_Complete_fields NewRunResult_fields)
  have p: "pushes w' = pushes w @
          (case metricsPusher r of
             None \<Rightarrow> []
           | Some pusher \<Rightarrow> [Pushed (cycle_metrics r res now)])"
    using rest(2) by (simp add: cm split: option.splits)
  from run f rest(1,3,4) p show ?thesis
    by (intro exI [of _ res] exI [of _ w'] exI [of _ now]) simp
qed

text \<open>
  C2 (as amended). In a live cycle whose cloud upload fails and whose backup succeeds,
  \<^verbatim>\<open>Run\<close> still calls \<^verbatim>\<open>Backup\<close>, once, after \<^verbatim>\<open>CloudUpload\<close>, and records the backup
  result. When the failure comes as an unsuccessful result, that result is recorded too,
  each in the field of its kind, and \<open>Success\<close> is false. When it comes as an error, no
  cloud-upload result is recorded and the wrapped error is in the list of errors.
\<close>

theorem Run_upload_fails_backup_succeeds:
  assumes "\<not> Config.DryRun (config r)" and "executor r = Some ex"
    and "Executor.Backup ex \<lparr>BackupOptions.Force = True\<rparr> = (Some b, None)"
    and "BackupResult.Success b"
    and "Executor.CloudUpload ex \<lparr>UploadOptions.Force = True\<rparr> = up"
    and "(\<exists>u. up = (Some u, None) \<and> \<not> BackupResult.Success u) \<or> (\<exists>e. snd up = Some e)"
  shows "\<exists>res w'. Run r w = Inr ((Some res, None), w')
      \<and> executor_calls w' = executor_calls w @ [ExecutorCloudUpload True, ExecutorBackup True]
      \<and> RunResult.Backup res = Some b
      \<and> (case snd up of
            None \<Rightarrow>
              RunResult.CloudUpload res = fst up \<and> fst up \<noteq> None \<and> \<not> RunResult.Success res
          | Some e \<Rightarrow>
              RunResult.CloudUpload res = None
              \<and> ''cloud upload error: '' @ error_Error e \<in> set (RunResult.Errors res))"
proof -
  from assms(6) have roe: "result_or_error up" by (auto simp: result_or_error_def)
  have rob: "result_or_error (Some b, None)" by (simp add: result_or_error_def)
  from Run_live [OF assms(1,2,5) roe assms(3) rob, of w] obtain res w' now where
    run: "Run r w = Inr ((Some res, None), w')"
    and f: "RunResult.CloudUpload res = operation_result up"
      "RunResult.Backup res = operation_result (Some b, None)"
      "RunResult.Errors res =
          (case operation_error ''cloud upload error: '' up of None \<Rightarrow> [] | Some e \<Rightarrow> [error_Error e])
        @ (case operation_error ''backup error: '' (Some b, None) of None \<Rightarrow> [] | Some e \<Rightarrow> [error_Error e])
        @ (case push_error r res now of None \<Rightarrow> [] | Some e \<Rightarrow> [error_Error e])"
      "executor_calls w' = executor_calls w @ [ExecutorCloudUpload True, ExecutorBackup True]"
    by blast
  note s = Run_Success [OF run]
  from assms(6) have "case snd up of
            None \<Rightarrow>
              RunResult.CloudUpload res = fst up \<and> fst up \<noteq> None \<and> \<not> RunResult.Success res
          | Some e \<Rightarrow>
              RunResult.CloudUpload res = None
              \<and> ''cloud upload error: '' @ error_Error e \<in> set (RunResult.Errors res)"
    unfolding s f by (auto simp: operation_result_def operation_error_def)
  moreover have "RunResult.Backup res = Some b" by (simp add: f operation_result_def)
  ultimately show ?thesis using run f(4) by blast
qed

theorem Run_upload_fails_backup_succeeds_witness:
  "\<not> Config.DryRun (config (testRunner NotifyError False (Some mock_upload_fails)))
   \<and> BackupResult.Success (succeeded OperationBackup)
   \<and> \<not> BackupResult.Success (failed OperationCloudUpload ''upload failed'')
   \<and> (\<exists>res w'.
        Run (testRunner NotifyError False (Some mock_upload_fails)) world0 =
          Inr ((Some res, None), w')
        \<and> executor_calls w' = [ExecutorCloudUpload True, ExecutorBackup True]
        \<and> RunResult.Backup res = Some (succeeded OperationBackup)
        \<and> RunResult.CloudUpload res = Some (failed OperationCloudUpload ''upload failed'')
        \<and> \<not> RunResult.Success res)"
proof -
  let ?r = "testRunner NotifyError False (Some mock_upload_fails)"
  let ?up = "(Some (failed OperationCloudUpload ''upload failed''), None :: error option)"
  have h1: "\<not> Config.DryRun (config ?r)" and h2: "executor ?r = Some mock_upload_fails"
    by (simp_all add: testRunner_fields)
  have h3: "Executor.Backup mock_upload_fails \<lparr>BackupOptions.Force = True\<rparr> =
      (Some (succeeded OperationBackup), None)"
    by (simp add: mock_upload_fails_def mock_succeeds_def)
  have h4: "BackupResult.Success (succeeded OperationBackup)" by (simp add: succeeded_def)
  have h5: "Executor.CloudUpload mock_upload_fails \<lparr>UploadOptions.Force = True\<rparr> = ?up"
    by (simp add: mock_upload_fails_def mock_succeeds_def)
  have nf: "\<not> BackupResult.Success (failed OperationCloudUpload ''upload failed'')"
    by (simp add: failed_def)
  then have h6: "(\<exists>u. ?up = (Some u, None) \<and> \<not> BackupResult.Success u) \<or> (\<exists>e. snd ?up = Some e)"
    by simp
  have e: "executor_calls world0 = []" by (simp add: executor_calls_def world0_def)
  from Run_upload_fails_backup_succeeds [OF h1 h2 h3 h4 h5 h6, of world0] h1 h4 nf
  show ?thesis unfolding e by simp
qed

text \<open>
  The claim as stated fails when the Executor reports the failure as an error (as the
  mock of \<^verbatim>\<open>TestRunner_Run_DryRun\<close> would, if called): the cycle then holds no
  cloud-upload result, and its \<open>Success\<close> is true.
\<close>

theorem Run_upload_error_counterexample:
  "map_option RunResult.CloudUpload
     (cycle_result (Run (testRunner NotifyError False (Some mock_upload_errors)) world0)) =
     Some None
   \<and> map_option RunResult.Backup
       (cycle_result (Run (testRunner NotifyError False (Some mock_upload_errors)) world0)) =
       Some (Some (succeeded OperationBackup))
   \<and> map_option RunResult.Success
       (cycle_result (Run (testRunner NotifyError False (Some mock_upload_errors)) world0)) =
       Some True"
proof -
  let ?r = "testRunner NotifyError False (Some mock_upload_errors)"
  let ?up = "(None :: BackupResult option, Some (errorString ''boom''))"
  let ?bk = "(Some (succeeded OperationBackup), None :: error option)"
  have h1: "\<not> Config.DryRun (config ?r)" and h2: "executor ?r = Some mock_upload_errors"
    by (simp_all add: testRunner_fields)
  have h3: "Executor.Backup mock_upload_errors \<lparr>BackupOptions.Force = True\<rparr> = ?bk"
    by (simp add: mock_upload_errors_def mock_succeeds_def)
  have h5: "Executor.CloudUpload mock_upload_errors \<lparr>UploadOptions.Force = True\<rparr> = ?up"
    by (simp add: mock_upload_errors_def mock_succeeds_def)
  have r: "result_or_error ?up" "result_or_error ?bk" by (simp_all add: result_or_error_def)
  from Run_live [OF h1 h2 h5 r(1) h3 r(2), of world0] obtain res w' where
    run: "Run ?r world0 = Inr ((Some res, None), w')"
    and f: "RunResult.CloudUpload res = operation_result ?up"
      "RunResult.Backup res = operation_result ?bk"
    by blast
  have s: "BackupResult.Success (succeeded OperationBackup)" by (simp add: succeeded_def)
  from Run_Success [OF run] have "RunResult.Success res"
    unfolding f by (simp add: operation_result_def s)
  with f show ?thesis by (simp add: run cycle_result_def operation_result_def)
qed

lemma Run_dry_errors:
  assumes "Config.DryRun (config r)" and "executor r = Some ex"
  shows "\<exists>res w' now u b. Run r w = Inr ((Some res, None), w')
      \<and> RunResult.CloudUpload res = Some u \<and> BackupResult.Success u
      \<and> RunResult.Backup res = Some b \<and> BackupResult.Success b
      \<and> RunResult.Errors res = (case push_error r res now of None \<Rightarrow> [] | Some e \<Rightarrow> [error_Error e])
      \<and> pushes w' = pushes w @
          (case metricsPusher r of
             None \<Rightarrow> []
           | Some pusher \<Rightarrow> [Pushed (cycle_metrics r res now)])
      \<and> notifications w' = notifications w @ notification_step r (durationText w) res
      \<and> (notification_error r (durationText w) res \<noteq> None \<longrightarrow>
          Logged LevelError ''failed to send notification'' \<in> set (trace w'))"
proof -
  let ?R0 = "fst (NewRunResult (Config.DryRun (config r)) w)"
  let ?W0 = "emit (Logged LevelInfo ''starting backup run'')
               (snd (NewRunResult (Config.DryRun (config r)) w))"
  from runOperations_dry [OF assms(1), of ?R0 ?W0] obtain u b w3 where
    ops: "runOperations r ?R0 ?W0 =
            Inr (?R0\<lparr>RunResult.CloudUpload := Some u, RunResult.Backup := Some b\<rparr>, w3)"
    and ub: "BackupResult.Success u" "BackupResult.Success b"
    and w3: "durationText w3 = durationText ?W0" "executor_calls w3 = executor_calls ?W0"
      "pushes w3 = pushes ?W0" "notifications w3 = notifications ?W0"
    by blast
  let ?result = "?R0\<lparr>RunResult.CloudUpload := Some u, RunResult.Backup := Some b\<rparr>"
  have "\<exists>res w' now. Run r w = Inr ((Some res, None), w')
     \<and> res = AddError (fst (RunResult_Complete ?result w3)) (push_error r ?result now)
     \<and> executor_calls w' = executor_calls w @ []
     \<and> pushes w' = pushes w @
          (case metricsPusher r of
             None \<Rightarrow> []
           | Some pusher \<Rightarrow> [Pushed (cycle_metrics r ?result now)])
     \<and> notifications w' = notifications w @ notification_step r (durationText w) res
     \<and> (notification_error r (durationText w) res \<noteq> None \<longrightarrow>
          Logged LevelError ''failed to send notification'' \<in> set (trace w'))"
    by (rule Run_after_operations) (simp_all add: assms(2) ops w3 started_world)
  then obtain res w' now where
    run: "Run r w = Inr ((Some res, None), w')"
    and res: "res = AddError (fst (RunResult_Complete ?result w3)) (push_error r ?result now)"
    and rest:
      "pushes w' = pushes w @
          (case metricsPusher r of
             None \<Rightarrow> []
           | Some pusher \<Rightarrow> [Pushed (cycle_metrics r ?result now)])"
      "notifications w' = notifications w @ notification_step r (durationText w) res"
      "notification_error r (durationText w) res \<noteq> None \<longrightarrow>
          Logged LevelError ''failed to send notification'' \<in> set (trace w')"
    by blast
  have pe: "push_error r res now = push_error r ?result now"
    and cm: "cycle_metrics r res now = cycle_metrics r ?result now"
    unfolding res by (rule push_error_final, rule cycle_metrics_final)
  have f: "RunResult.CloudUpload res = Some u" "RunResult.Backup res = Some b"
    "RunResult.Errors res = (case push_error r res now of None \<Rightarrow> [] | Some e \<Rightarrow> [error_Error e])"
    unfolding pe unfolding res
    by (simp_all add: AddError_fields RunResult_Complete_fields NewRunResult_fields)
  have p: "pushes w' = pushes w @
          (case metricsPusher r of
             None \<Rightarrow> []
           | Some pusher \<Rightarrow> [Pushed (cycle_metrics r res now)])"
    using rest(1) by (simp add: cm split: option.splits)
  from run f ub rest(2,3) p show ?thesis
    by (intro exI [of _ res] exI [of _ w'] exI [of _ now] exI [of _ u] exI [of _ b]) simp
qed

text \<open>
  C7 (as amended). In every cycle in which both operations succeed (live, or their
  dry-run surrogates) and the metrics push fails, the error of the push is added to the
  result's list of errors, after \<^verbatim>\<open>Complete\<close> has set \<open>Success\<close>; \<open>Success\<close> stays
  true.
\<close>

theorem Run_push_failure_keeps_Success:
  assumes "executor r = Some ex"
    and "Config.DryRun (config r)
         \<or> (\<exists>u b. Executor.CloudUpload ex \<lparr>UploadOptions.Force = True\<rparr> = (Some u, None)
                  \<and> BackupResult.Success u
                  \<and> Executor.Backup ex \<lparr>BackupOptions.Force = True\<rparr> = (Some b, None)
                  \<and> BackupResult.Success b)"
    and "metricsPusher r = Some pusher" and "\<forall>m. pusher m \<noteq> None"
  shows "\<exists>res w' m e u b. Run r w = Inr ((Some res, None), w')
      \<and> RunResult.CloudUpload res = Some u \<and> BackupResult.Success u
      \<and> RunResult.Backup res = Some b \<and> BackupResult.Success b
      \<and> pushes w' = pushes w @ [Pushed m] \<and> pusher m = Some e
      \<and> RunResult.Errors res = [error_Error e]
      \<and> RunResult.Success res"
proof -
  have "\<exists>res w' now u b. Run r w = Inr ((Some res, None), w')
      \<and> RunResult.CloudUpload res = Some u \<and> BackupResult.Success u
      \<and> RunResult.Backup res = Some b \<and> BackupResult.Success b
      \<and> RunResult.Errors res = (case push_error r res now of None \<Rightarrow> [] | Some e \<Rightarrow> [error_Error e])
      \<and> pushes w' = pushes w @ [Pushed (cycle_metrics r res now)]"
  proof (cases "Config.DryRun (config r)")
    case True
    from Run_dry_errors [OF True assms(1), of w] show ?thesis
      by (simp add: assms(3)) blast
  next
    case False
    with assms(2) obtain u b where
      up: "Executor.CloudUpload ex \<lparr>UploadOptions.Force = True\<rparr> = (Some u, None)"
      and bk: "Executor.Backup ex \<lparr>BackupOptions.Force = True\<rparr> = (Some b, None)"
      and s: "BackupResult.Success u" "BackupResult.Success b"
      by blast
    have r: "result_or_error (Some u, None)" "result_or_error (Some b, None)"
      by (simp_all add: result_or_error_def)
    from Run_live [OF False assms(1) up r(1) bk r(2), of w] s show ?thesis
      by (simp add: assms(3) operation_result_def operation_error_def) blast
  qed
  then obtain res w' now u b where
    run: "Run r w = Inr ((Some res, None), w')"
    and f: "RunResult.CloudUpload res = Some u" "BackupResult.Success u"
      "RunResult.Backup res = Some b" "BackupResult.Success b"
    and e: "RunResult.Errors res =
      (case push_error r res now of None \<Rightarrow> [] | Some e \<Rightarrow> [error_Error e])"
    and p: "pushes w' = pushes w @ [Pushed (cycle_metrics r res now)]"
    by blast
  from assms(4) obtain e' where pm: "pusher (cycle_metrics r res now) = Some e'" by auto
  then have "push_error r res now = Some e'" by (simp add: push_error_def assms(3))
  with e have e: "RunResult.Errors res = [error_Error e']" by simp
  from Run_Success [OF run] f have "RunResult.Success res" by simp
  with run f p pm e show ?thesis by blast
qed

theorem Run_push_failure_keeps_Success_witness:
  "executor (testRunner NotifyError False (Some mock_succeeds)) = Some mock_succeeds
   \<and> metricsPusher (testRunner NotifyError False (Some mock_succeeds)) = Some failing_pusher
   \<and> (\<exists>res w' m.
        Run (testRunner NotifyError False (Some mock_succeeds)) world0 =
          Inr ((Some res, None), w')
        \<and> RunResult.CloudUpload res = Some (succeeded OperationCloudUpload)
        \<and> RunResult.Backup res = Some (succeeded OperationBackup)
        \<and> pushes w' = [Pushed m]
        \<and> RunResult.Errors res = [''push failed'']
        \<and> RunResult.Success res)"
proof -
  let ?r = "testRunner NotifyError False (Some mock_succeeds)"
  have h1: "executor ?r = Some mock_succeeds" and h3: "metricsPusher ?r = Some failing_pusher"
    and live: "\<not> Config.DryRun (config ?r)"
    by (simp_all add: testRunner_fields)
  have up: "Executor.CloudUpload mock_succeeds \<lparr>UploadOptions.Force = True\<rparr> =
      (Some (succeeded OperationCloudUpload), None)"
    and bk: "Executor.Backup mock_succeeds \<lparr>BackupOptions.Force = True\<rparr> =
      (Some (succeeded OperationBackup), None)"
    by (simp_all add: mock_succeeds_def)
  have s: "BackupResult.Success (succeeded OperationCloudUpload)"
    "BackupResult.Success (succeeded OperationBackup)"
    by (simp_all add: succeeded_def)
  from up bk s have h2: "Config.DryRun (config ?r)
         \<or> (\<exists>u b. Executor.CloudUpload mock_succeeds \<lparr>UploadOptions.Force = True\<rparr> = (Some u, None)
                  \<and> BackupResult.Success u
                  \<and> Executor.Backup mock_succeeds \<lparr>BackupOptions.Force = True\<rparr> = (Some b, None)
                  \<and> BackupResult.Success b)"
    by simp
  have h4: "\<forall>m. failing_pusher m \<noteq> None" by (simp add: failing_pusher_def)
  have e: "pushes world0 = []" by (simp add: pushes_def world0_def)
  from Run_push_failure_keeps_Success [OF h1 h2 h3 h4, of world0] obtain res w' m e u b where
    run: "Run ?r world0 = Inr ((Some res, None), w')"
    and f: "RunResult.CloudUpload res = Some u" "RunResult.Backup res = Some b"
      "pushes w' = pushes world0 @ [Pushed m]" "failing_pusher m = Some e"
      "RunResult.Errors res = [error_Error e]" "RunResult.Success res"
    by blast
  have r: "result_or_error (Some (succeeded OperationCloudUpload), None)"
    "result_or_error (Some (succeeded OperationBackup), None)"
    by (simp_all add: result_or_error_def)
  from Run_live [OF live h1 up r(1) bk r(2), of world0] run have
    "RunResult.CloudUpload res = Some (succeeded OperationCloudUpload)"
    "RunResult.Backup res = Some (succeeded OperationBackup)"
    by (auto simp: operation_result_def)
  moreover from f(4) have "error_Error e = ''push failed''"
    by (auto simp: failing_pusher_def)
  ultimately show ?thesis using h1 h3 run f e by auto
qed

text \<open>
  The claim as stated fails: no cycle at all that returns with both operation results
  successful has \<open>Success\<close> false, whatever the metrics push did and whatever was added
  to its list of errors.
\<close>

theorem Run_reporting_failure_counterexample:
  "\<not> (\<exists>r w res err w' pusher m e.
         Run r w = Inr ((Some res, err), w')
         \<and> (\<exists>u. RunResult.CloudUpload res = Some u \<and> BackupResult.Success u)
         \<and> (\<exists>b. RunResult.Backup res = Some b \<and> BackupResult.Success b)
         \<and> metricsPusher r = Some pusher \<and> Pushed m \<in> set (trace w') \<and> pusher m = Some e
         \<and> error_Error e \<in> set (RunResult.Errors res)
         \<and> \<not> RunResult.Success res)"
proof
  assume "\<exists>r w res err w' pusher m e.
         Run r w = Inr ((Some res, err), w')
         \<and> (\<exists>u. RunResult.CloudUpload res = Some u \<and> BackupResult.Success u)
         \<and> (\<exists>b. RunResult.Backup res = Some b \<and> BackupResult.Success b)
         \<and> metricsPusher r = Some pusher \<and> Pushed m \<in> set (trace w') \<and> pusher m = Some e
         \<and> error_Error e \<in> set (RunResult.Errors res)
         \<and> \<not> RunResult.Success res"
  then obtain r w res err w' u b where
    run: "Run r w = Inr ((Some res, err), w')"
    and f: "RunResult.CloudUpload res = Some u" "BackupResult.Success u"
      "RunResult.Backup res = Some b" "BackupResult.Success b"
    and n: "\<not> RunResult.Success res"
    by blast
  from Run_Success [OF run] f have "RunResult.Success res" by simp
  with n show False by contradiction
qed

text \<open>
  C8. A call of the Executor returns a result or an error: \<^verbatim>\<open>LudusaviExecutor\<close> and
  \<^verbatim>\<open>MockExecutor\<close> return a result with a nil error, and the functions the tests give
  the mock return a result or an error. With such an Executor, or with none, for every
  configuration, metrics pusher, notifier and world, \<^verbatim>\<open>Run\<close> returns a result and a nil
  error. An error of the metrics push is the last entry of the result's list of errors,
  and the notification step runs all the same, on that final result; an error of the
  notifier is logged and is not returned.
\<close>

theorem Run_returns_result_nil_error:
  assumes "\<forall>ex. executor r = Some ex \<and> \<not> Config.DryRun (config r) \<longrightarrow>
             result_or_error (Executor.CloudUpload ex \<lparr>UploadOptions.Force = True\<rparr>)
             \<and> result_or_error (Executor.Backup ex \<lparr>BackupOptions.Force = True\<rparr>)"
  shows "\<exists>res w' now. Run r w = Inr ((Some res, None), w')
      \<and> pushes w' = pushes w @
          (case metricsPusher r of
             None \<Rightarrow> []
           | Some pusher \<Rightarrow> [Pushed (cycle_metrics r res now)])
      \<and> (\<forall>e. push_error r res now = Some e \<longrightarrow>
            RunResult.Errors res \<noteq> [] \<and> last (RunResult.Errors res) = error_Error e)
      \<and> notifications w' = notifications w @ notification_step r (durationText w) res
      \<and> (notification_error r (durationText w) res \<noteq> None \<longrightarrow>
            Logged LevelError ''failed to send notification'' \<in> set (trace w'))"
proof -
  have "\<exists>res w' now es. Run r w = Inr ((Some res, None), w')
      \<and> RunResult.Errors res =
          es @ (case push_error r res now of None \<Rightarrow> [] | Some e \<Rightarrow> [error_Error e])
      \<and> pushes w' = pushes w @
          (case metricsPusher r of
             None \<Rightarrow> []
           | Some pusher \<Rightarrow> [Pushed (cycle_metrics r res now)])
      \<and> notifications w' = notifications w @ notification_step r (durationText w) res
      \<and> (notification_error r (durationText w) res \<noteq> None \<longrightarrow>
            Logged LevelError ''failed to send notification'' \<in> set (trace w'))"
  proof (cases "executor r")
    case None
    let ?R0 = "fst (NewRunResult (Config.DryRun (config r)) w)"
    let ?W0 = "emit (Logged LevelInfo ''starting backup run'')
                 (snd (NewRunResult (Config.DryRun (config r)) w))"
    have "\<exists>res w' now. Run r w = Inr ((Some res, None), w')
       \<and> res = AddError (fst (RunResult_Complete ?R0 ?W0)) (push_error r ?R0 now)
       \<and> executor_calls w' = executor_calls w @ []
       \<and> pushes w' = pushes w @
            (case metricsPusher r of
               None \<Rightarrow> []
             | Some pusher \<Rightarrow> [Pushed (cycle_metrics r ?R0 now)])
       \<and> notifications w' = notifications w @ notification_step r (durationText w) res
       \<and> (notification_error r (durationText w) res \<noteq> None \<longrightarrow>
            Logged LevelError ''failed to send notification'' \<in> set (trace w'))"
      by (rule Run_after_operations) (simp_all add: None started_world)
    then obtain res w' now where
      run: "Run r w = Inr ((Some res, None), w')"
      and res: "res = AddError (fst (RunResult_Complete ?R0 ?W0)) (push_error r ?R0 now)"
      and rest:
        "pushes w' = pushes w @
            (case metricsPusher r of
               None \<Rightarrow> []
             | Some pusher \<Rightarrow> [Pushed (cycle_metrics r ?R0 now)])"
        "notifications w' = notifications w @ notification_step r (durationText w) res"
        "notification_error r (durationText w) res \<noteq> None \<longrightarrow>
            Logged LevelError ''failed to send notification'' \<in> set (trace w')"
      by blast
    have pe: "push_error r res now = push_error r ?R0 now"
      and cm: "cycle_metrics r res now = cycle_metrics r ?R0 now"
      unfolding res by (rule push_error_final, rule cycle_metrics_final)
    have e: "RunResult.Errors res =
        [] @ (case push_error r res now of None \<Rightarrow> [] | Some e \<Rightarrow> [error_Error e])"
      unfolding pe unfolding res
      by (simp add: AddError_fields RunResult_Complete_fields NewRunResult_fields)
    have p: "pushes w' = pushes w @
            (case metricsPusher r of
               None \<Rightarrow> []
             | Some pusher \<Rightarrow> [Pushed (cycle_metrics r res now)])"
      using rest(1) by (simp add: cm split: option.splits)
    from run e p rest(2,3) show ?thesis by blast
  next
    case (Some ex)
    show ?thesis
    proof (cases "Config.DryRun (config r)")
      case True
      from Run_dry_errors [OF True Some, of w] obtain res w' now where
        "Run r w = Inr ((Some res, None), w')"
        "RunResult.Errors res =
           [] @ (case push_error r res now of None \<Rightarrow> [] | Some e \<Rightarrow> [error_Error e])"
        "pushes w' = pushes w @
            (case metricsPusher r of
               None \<Rightarrow> []
             | Some pusher \<Rightarrow> [Pushed (cycle_metrics r res now)])"
        "notifications w' = notifications w @ notification_step r (durationText w) res"
        "notification_error r (durationText w) res \<noteq> None \<longrightarrow>
            Logged LevelError ''failed to send notification'' \<in> set (trace w')"
        by auto
      then show ?thesis by blast
    next
      case False
      with assms Some have
        c: "result_or_error (Executor.CloudUpload ex \<lparr>UploadOptions.Force = True\<rparr>)"
          "result_or_error (Executor.Backup ex \<lparr>BackupOptions.Force = True\<rparr>)"
        by auto
      from Run_live [OF False Some refl c(1) refl c(2), of w] obtain res w' now where
        "Run r w = Inr ((Some res, None), w')"
        "RunResult.Errors res =
          ((case operation_error ''cloud upload error: ''
                  (Executor.CloudUpload ex \<lparr>UploadOptions.Force = True\<rparr>) of
              None \<Rightarrow> [] | Some e \<Rightarrow> [error_Error e])
           @ (case operation_error ''backup error: ''
                  (Executor.Backup ex \<lparr>BackupOptions.Force = True\<rparr>) of
              None \<Rightarrow> [] | Some e \<Rightarrow> [error_Error e]))
          @ (case push_error r res now of None \<Rightarrow> [] | Some e \<Rightarrow> [error_Error e])"
        "pushes w' = pushes w @
            (case metricsPusher r of
               None \<Rightarrow> []
             | Some pusher \<Rightarrow> [Pushed (cycle_metrics r res now)])"
        "notifications w' = notifications w @ notification_step r (durationText w) res"
        "notification_error r (durationText w) res \<noteq> None \<longrightarrow>
            Logged LevelError ''failed to send notification'' \<in> set (trace w')"
        by auto
      then show ?thesis by blast
    qed
  qed
  then obtain res w' now es where
    run: "Run r w = Inr ((Some res, None), w')"
    and e: "RunResult.Errors res =
          es @ (case push_error r res now of None \<Rightarrow> [] | Some e \<Rightarrow> [error_Error e])"
    and rest:
      "pushes w' = pushes w @
          (case metricsPusher r of
             None \<Rightarrow> []
           | Some pusher \<Rightarrow> [Pushed (cycle_metrics r res now)])"
      "notifications w' = notifications w @ notification_step r (durationText w) res"
      "notification_error r (durationText w) res \<noteq> None \<longrightarrow>
            Logged LevelError ''failed to send notification'' \<in> set (trace w')"
    by blast
  have "\<forall>e. push_error r res now = Some e \<longrightarrow>
            RunResult.Errors res \<noteq> [] \<and> last (RunResult.Errors res) = error_Error e"
  proof (intro allI impI)
    fix e' assume "push_error r res now = Some e'"
    with e have "RunResult.Errors res = es @ [error_Error e']" by simp
    then show "RunResult.Errors res \<noteq> [] \<and> last (RunResult.Errors res) = error_Error e'"
      by simp
  qed
  with run rest show ?thesis by blast
qed

theorem Run_returns_result_nil_error_witness:
  "result_or_error (Executor.CloudUpload mock_upload_errors \<lparr>UploadOptions.Force = True\<rparr>)
   \<and> result_or_error (Executor.Backup mock_upload_errors \<lparr>BackupOptions.Force = True\<rparr>)
   \<and> (\<exists>res w' m x.
        Run (testRunner NotifyAlways False (Some mock_upload_errors)) world0 =
          Inr ((Some res, None), w')
        \<and> pushes w' = [Pushed m]
        \<and> last (RunResult.Errors res) = ''push failed''
        \<and> notifications w' = [Notified x] \<and> Level x = NotificationLevelInfo
        \<and> Logged LevelError ''failed to send notification'' \<in> set (trace w'))"
proof -
  let ?r = "testRunner NotifyAlways False (Some mock_upload_errors)"
  have c: "result_or_error (Executor.CloudUpload mock_upload_errors \<lparr>UploadOptions.Force = True\<rparr>)"
    "result_or_error (Executor.Backup mock_upload_errors \<lparr>BackupOptions.Force = True\<rparr>)"
    by (simp_all add: result_or_error_def mock_upload_errors_def mock_succeeds_def)
  then have h: "\<forall>ex. executor ?r = Some ex \<and> \<not> Config.DryRun (config ?r) \<longrightarrow>
             result_or_error (Executor.CloudUpload ex \<lparr>UploadOptions.Force = True\<rparr>)
             \<and> result_or_error (Executor.Backup ex \<lparr>BackupOptions.Force = True\<rparr>)"
    by (simp add: testRunner_fields)
  have e: "pushes world0 = []" "notifications world0 = []"
    by (simp_all add: pushes_def notifications_def world0_def)
  from Run_returns_result_nil_error [OF h, of world0] obtain res w' now where
    run: "Run ?r world0 = Inr ((Some res, None), w')"
    and p: "pushes w' = [Pushed (cycle_metrics ?r res now)]"
    and pe: "\<forall>e. push_error ?r res now = Some e \<longrightarrow>
            RunResult.Errors res \<noteq> [] \<and> last (RunResult.Errors res) = error_Error e"
    and n: "notifications w' = notification_step ?r (durationText world0) res"
    and l: "notification_error ?r (durationText world0) res \<noteq> None \<longrightarrow>
            Logged LevelError ''failed to send notification'' \<in> set (trace w')"
    by (auto simp: e testRunner_fields)
  have live: "\<not> Config.DryRun (config ?r)" and ex: "executor ?r = Some mock_upload_errors"
    by (simp_all add: testRunner_fields)
  have "push_error ?r res now = Some (errorString ''push failed'')"
    by (simp add: push_error_def testRunner_fields failing_pusher_def)
  with pe have last: "last (RunResult.Errors res) = ''push failed''" by simp
  from Run_Success [OF run] Run_live [OF live ex refl c(1) refl c(2), of world0] run
  have s: "RunResult.Success res"
    by (auto simp: operation_result_def mock_upload_errors_def mock_succeeds_def succeeded_def)
  then obtain x where sw: "snd (notification_switch ?r (durationText world0) res) = Some x"
    and lx: "Level x = NotificationLevelInfo"
    by (simp add: notification_switch_def testRunner_fields InfoNotification_def
        NewNotification_def)
  from sw have "notification_step ?r (durationText world0) res = [Notified x]"
    "notification_error ?r (durationText world0) res \<noteq> None"
    by (simp_all add: notification_step_def notification_error_def testRunner_fields
        failing_notifier_def)
  with run p last n l lx c show ?thesis by auto
qed

text \<open>
  C9. With a notifier: at the level \<open>always\<close> one notification is sent, the success
  notification after a successful cycle and the failure notification after a failed one;
  at the levels \<open>error\<close> and \<open>warning\<close> the failure notification is sent after a failed
  cycle and nothing after a successful one, the same for both levels.
\<close>

theorem sendNotifications_policy:
  assumes "notifier r = Some n"
  shows "(Notify (Apprise (config r)) = NotifyAlways \<longrightarrow>
            trace (snd (sendNotifications r result w)) =
              trace w @
              [Notified
                 (if RunResult.Success result
                  then InfoNotification ''Ludusavi Backup Completed''
                         (buildSuccessMessage r (durationText w) result)
                  else ErrorNotification ''Ludusavi Backup Failed''
                         (buildErrorMessage r result))])
       \<and> (Notify (Apprise (config r)) = NotifyError
            \<or> Notify (Apprise (config r)) = NotifyWarning \<longrightarrow>
            trace (snd (sendNotifications r result w)) =
              trace w @
              (if RunResult.Success result then []
               else [Notified (ErrorNotification ''Ludusavi Backup Failed''
                                 (buildErrorMessage r result))]))"
proof -
  have ne: "NotifyError \<noteq> NotifyAlways" "NotifyWarning \<noteq> NotifyAlways"
    by (simp_all add: NotifyError_def NotifyWarning_def NotifyAlways_def)
  show ?thesis
    using ne
    by (auto simp: sendNotifications_trace notification_step_def notification_switch_def assms)
qed

theorem sendNotifications_policy_witness:
  "notifier (testRunner NotifyWarning False None) = Some failing_notifier
   \<and> Notify (Apprise (config (testRunner NotifyWarning False None))) = NotifyWarning
   \<and> trace (snd (sendNotifications (testRunner NotifyWarning False None)
                   (fst (NewRunResult False world0)) world0)) =
       [Notified (ErrorNotification ''Ludusavi Backup Failed''
                    (buildErrorMessage (testRunner NotifyWarning False None)
                       (fst (NewRunResult False world0))))]"
proof -
  let ?r = "testRunner NotifyWarning False None"
  have h: "notifier ?r = Some failing_notifier" by (simp add: testRunner_fields)
  have l: "Notify (Apprise (config ?r)) = NotifyWarning" by (simp add: testRunner_fields)
  have f: "\<not> RunResult.Success (fst (NewRunResult False world0))"
    by (simp add: NewRunResult_eq)
  have t: "trace world0 = []" by (simp add: world0_def)
  from sendNotifications_policy [OF h, of "fst (NewRunResult False world0)" world0] h l f
  show ?thesis by (simp add: t)
qed

end
